theory Spec2Isabelle
  imports Complex_Main
begin

section \<open>JavaScript numbers\<close>

text \<open>
  Every quantity of the simulation is a JavaScript number. A number is modelled as a
  finite real or one of the three special values of IEEE arithmetic. The special values
  are kept because the program divides by quantities that are zero at \<open>time = 0\<close>, and
  \<open>NaN\<close> then flows through comparisons, \<open>Math.min\<close>, \<open>Math.max\<close> and array indexing.
  Arithmetic on finite values is exact: rounding, overflow, underflow and the sign of
  zero are not part of this model (a zero divisor is taken as \<open>+0\<close>).
\<close>

datatype jsnum = Fin real | PInf | NInf | NaN

fun isFin :: "jsnum \<Rightarrow> bool" where
  "isFin (Fin r) = True"
| "isFin v = False"

text \<open>Truthiness of a number, as \<open>||\<close> and \<open>if\<close> see it: \<open>0\<close> and \<open>NaN\<close> are falsy.\<close>

fun truthy :: "jsnum \<Rightarrow> bool" where
  "truthy (Fin r) = (r \<noteq> 0)"
| "truthy NaN = False"
| "truthy v = True"

fun jneg :: "jsnum \<Rightarrow> jsnum" where
  "jneg (Fin a) = Fin (- a)"
| "jneg PInf = NInf"
| "jneg NInf = PInf"
| "jneg NaN = NaN"

fun jadd :: "jsnum \<Rightarrow> jsnum \<Rightarrow> jsnum" where
  "jadd NaN v = NaN"
| "jadd v NaN = NaN"
| "jadd (Fin a) (Fin b) = Fin (a + b)"
| "jadd PInf NInf = NaN"
| "jadd NInf PInf = NaN"
| "jadd PInf v = PInf"
| "jadd v PInf = PInf"
| "jadd NInf v = NInf"
| "jadd v NInf = NInf"

definition jsub :: "jsnum \<Rightarrow> jsnum \<Rightarrow> jsnum" where
  "jsub a b = jadd a (jneg b)"

text \<open>An infinity of the given sign (\<open>True\<close> is positive).\<close>

definition inf_of :: "bool \<Rightarrow> jsnum" where
  "inf_of pos = (if pos then PInf else NInf)"

fun jmul :: "jsnum \<Rightarrow> jsnum \<Rightarrow> jsnum" where
  "jmul NaN v = NaN"
| "jmul v NaN = NaN"
| "jmul (Fin a) (Fin b) = Fin (a * b)"
| "jmul (Fin a) PInf = (if a = 0 then NaN else inf_of (0 < a))"
| "jmul (Fin a) NInf = (if a = 0 then NaN else inf_of (a < 0))"
| "jmul PInf (Fin b) = (if b = 0 then NaN else inf_of (0 < b))"
| "jmul NInf (Fin b) = (if b = 0 then NaN else inf_of (b < 0))"
| "jmul PInf PInf = PInf"
| "jmul PInf NInf = NInf"
| "jmul NInf PInf = NInf"
| "jmul NInf NInf = PInf"

fun jdiv :: "jsnum \<Rightarrow> jsnum \<Rightarrow> jsnum" where
  "jdiv NaN v = NaN"
| "jdiv v NaN = NaN"
| "jdiv (Fin a) (Fin b) =
     (if b = 0 then (if a = 0 then NaN else inf_of (0 < a)) else Fin (a / b))"
| "jdiv (Fin a) v = Fin 0"
| "jdiv PInf (Fin b) = inf_of (0 \<le> b)"
| "jdiv NInf (Fin b) = inf_of (b < 0)"
| "jdiv v w = NaN"

text \<open>The comparison \<open><\<close>; any comparison with \<open>NaN\<close> is false.\<close>

fun jlt :: "jsnum \<Rightarrow> jsnum \<Rightarrow> bool" where
  "jlt NaN v = False"
| "jlt v NaN = False"
| "jlt (Fin a) (Fin b) = (a < b)"
| "jlt v NInf = False"
| "jlt PInf v = False"
| "jlt v w = True"

definition jgt :: "jsnum \<Rightarrow> jsnum \<Rightarrow> bool" where
  "jgt a b = jlt b a"

text \<open>The comparison \<open><=\<close>.\<close>

fun jle :: "jsnum \<Rightarrow> jsnum \<Rightarrow> bool" where
  "jle NaN v = False"
| "jle v NaN = False"
| "jle (Fin a) (Fin b) = (a \<le> b)"
| "jle NInf v = True"
| "jle v PInf = True"
| "jle v w = False"

fun Math_min :: "jsnum \<Rightarrow> jsnum \<Rightarrow> jsnum" where
  "Math_min NaN v = NaN"
| "Math_min v NaN = NaN"
| "Math_min a b = (if jlt b a then b else a)"

fun Math_max :: "jsnum \<Rightarrow> jsnum \<Rightarrow> jsnum" where
  "Math_max NaN v = NaN"
| "Math_max v NaN = NaN"
| "Math_max a b = (if jlt a b then b else a)"

fun Math_abs :: "jsnum \<Rightarrow> jsnum" where
  "Math_abs (Fin a) = Fin \<bar>a\<bar>"
| "Math_abs NaN = NaN"
| "Math_abs v = PInf"

fun Math_floor :: "jsnum \<Rightarrow> jsnum" where
  "Math_floor (Fin a) = Fin (of_int \<lfloor>a\<rfloor>)"
| "Math_floor v = v"

fun Math_sqrt :: "jsnum \<Rightarrow> jsnum" where
  "Math_sqrt (Fin a) = (if a < 0 then NaN else Fin (sqrt a))"
| "Math_sqrt PInf = PInf"
| "Math_sqrt v = NaN"

fun Math_sin :: "jsnum \<Rightarrow> jsnum" where
  "Math_sin (Fin a) = Fin (sin a)"
| "Math_sin v = NaN"

fun Math_cos :: "jsnum \<Rightarrow> jsnum" where
  "Math_cos (Fin a) = Fin (cos a)"
| "Math_cos v = NaN"

fun Math_acos :: "jsnum \<Rightarrow> jsnum" where
  "Math_acos (Fin a) = (if - 1 \<le> a \<and> a \<le> 1 then Fin (arccos a) else NaN)"
| "Math_acos v = NaN"

definition Math_PI :: jsnum where
  "Math_PI = Fin pi"

text \<open>
  \<open>Math.atan2(y, x)\<close>: the angle of the point \<open>(x, y)\<close>, in \<open>[-\<pi>, \<pi>]\<close>. On the
  negative x axis (\<open>y = 0\<close>, \<open>x < 0\<close>) the result is \<open>\<pi>\<close>. Without signed zeros and
  rounding this is the only way to reach \<open>\<pi>\<close>: the code also returns \<open>Math.PI\<close> for
  \<open>y = +0\<close>, \<open>x = -0\<close> and for a tiny positive \<open>y\<close> with negative \<open>x\<close>, where this function
  gives \<open>0\<close> and a value just below \<open>\<pi>\<close>.
\<close>

fun Math_atan2 :: "jsnum \<Rightarrow> jsnum \<Rightarrow> jsnum" where
  "Math_atan2 NaN v = NaN"
| "Math_atan2 v NaN = NaN"
| "Math_atan2 (Fin b) (Fin a) =
     (if 0 < a then Fin (arctan (b / a))
      else if a < 0 then (if 0 \<le> b then Fin (arctan (b / a) + pi) else Fin (arctan (b / a) - pi))
      else if 0 < b then Fin (pi / 2)
      else if b < 0 then Fin (- pi / 2)
      else Fin 0)"
| "Math_atan2 (Fin b) PInf = Fin 0"
| "Math_atan2 (Fin b) NInf = (if 0 \<le> b then Fin pi else Fin (- pi))"
| "Math_atan2 PInf (Fin a) = Fin (pi / 2)"
| "Math_atan2 NInf (Fin a) = Fin (- pi / 2)"
| "Math_atan2 PInf PInf = Fin (pi / 4)"
| "Math_atan2 PInf NInf = Fin (3 * pi / 4)"
| "Math_atan2 NInf PInf = Fin (- pi / 4)"
| "Math_atan2 NInf NInf = Fin (- 3 * pi / 4)"

text \<open>
  \<open>Math.pow(b, e)\<close> and \<open>b ** e\<close>, for the finite exponents the program uses
  (\<open>0.2\<close>, \<open>0.4\<close>, \<open>0.5\<close>, \<open>1/(\<gamma>-1)\<close>, \<open>-1\<close>, \<open>2\<close>). A negative base with a fractional exponent
  gives \<open>NaN\<close>.
\<close>

fun Math_pow :: "jsnum \<Rightarrow> real \<Rightarrow> jsnum" where
  "Math_pow (Fin b) e =
     (if e = 0 then Fin 1
      else if 0 < b then Fin (b powr e)
      else if b = 0 then (if 0 < e then Fin 0 else PInf)
      else if e \<in> \<int> then Fin (b powi \<lfloor>e\<rfloor>)
      else NaN)"
| "Math_pow NaN e = (if e = 0 then Fin 1 else NaN)"
| "Math_pow PInf e = (if e = 0 then Fin 1 else if 0 < e then PInf else Fin 0)"
| "Math_pow NInf e =
     (if e = 0 then Fin 1
      else if e < 0 then Fin 0
      else if e \<in> \<int> \<and> odd \<lfloor>e\<rfloor> then NInf
      else PInf)"

text \<open>\<open>a || d\<close> on numbers where \<open>a\<close> may be missing (\<open>undefined\<close>).\<close>

fun or_default :: "jsnum option \<Rightarrow> jsnum \<Rightarrow> jsnum" where
  "or_default None d = d"
| "or_default (Some v) d = (if truthy v then v else d)"

section \<open>The random sources\<close>

text \<open>
  \<open>Math.random()\<close> and \<open>d3.randomNormal\<close> are process-wide generators that the program
  calls directly. Their hidden state is made explicit: \<open>uniform g k\<close> is the value the
  \<open>k\<close>-th call of \<open>Math.random()\<close> returns, \<open>gauss g k\<close> the standard normal deviate behind
  the \<open>k\<close>-th sample of \<open>d3.randomNormal\<close>, and the two counters say how many values have
  been consumed.
\<close>

record rng =
  uniform :: "nat \<Rightarrow> real"
  gauss :: "nat \<Rightarrow> real"
  used_uniform :: nat
  used_gauss :: nat

definition Math_random :: "rng \<Rightarrow> real \<times> rng" where
  "Math_random g = (uniform g (used_uniform g), g\<lparr>used_uniform := Suc (used_uniform g)\<rparr>)"

text \<open>\<open>d3.randomNormal(mu, sigma)()\<close>: one sample of the normal distribution.\<close>

definition d3_randomNormal :: "real \<Rightarrow> real \<Rightarrow> rng \<Rightarrow> real \<times> rng" where
  "d3_randomNormal mu sigma g =
     (mu + sigma * gauss g (used_gauss g), g\<lparr>used_gauss := Suc (used_gauss g)\<rparr>)"

section \<open>The physics model (nova-model.js)\<close>

text \<open>
  A species of the configuration. Its numeric fields are finite numbers; \<open>massFrac\<close> sizes
  a loop, so an infinite value would make the constructor run forever.
\<close>

record element =
  el_name :: string
  el_A :: real
  el_color :: string
  el_massFrac :: real
  el_D0 :: real

record particle =
  p_id :: nat
  p_element :: string
  p_mass :: jsnum
  p_A :: real
  p_color :: string
  p_diffusionCoeff :: jsnum
  p_xi :: jsnum
  p_theta :: jsnum
  p_phi :: jsnum
  p_x :: jsnum
  p_y :: jsnum
  p_z :: jsnum
  p_vx :: jsnum
  p_vy :: jsnum
  p_vz :: jsnum
  p_temperature :: jsnum
  p_density :: jsnum

text \<open>The constructor's argument; a field that is \<open>None\<close> is missing from the object.\<close>

record config =
  cfg_energy :: "jsnum option"
  cfg_density :: "jsnum option"
  cfg_elements :: "element list option"

record SupernovaModel =
  energy :: jsnum
  density :: jsnum
  time :: jsnum
  elements :: "element list"
  particles :: "particle list"

definition default_elements :: "element list" where
  "default_elements =
     [\<lparr>el_name = ''Fe'', el_A = 56, el_color = ''#e74c3c'', el_massFrac = 0.15, el_D0 = 10 ^ 18\<rparr>,
      \<lparr>el_name = ''Si'', el_A = 28, el_color = ''#f39c12'', el_massFrac = 0.25, el_D0 = 2 * 10 ^ 18\<rparr>,
      \<lparr>el_name = ''O'', el_A = 16, el_color = ''#3498db'', el_massFrac = 0.35, el_D0 = 3 * 10 ^ 18\<rparr>,
      \<lparr>el_name = ''C'', el_A = 12, el_color = ''#2ecc71'', el_massFrac = 0.25, el_D0 = 4 * 10 ^ 18\<rparr>]"

text \<open>Shock radius in parsec.\<close>

definition getShockRadius :: "SupernovaModel \<Rightarrow> jsnum" where
  "getShockRadius m =
     (let t_sec = jmul (time m) (Fin 31560000);
          beta = Fin 1.15;
          factor = jmul beta (Math_pow (jdiv (energy m) (density m)) 0.2);
          radius_cm = jmul factor (Math_pow t_sec 0.4)
      in jdiv radius_cm (Fin 3086000000000000000))"

text \<open>Shock velocity in km/s.\<close>

definition getShockVelocity :: "SupernovaModel \<Rightarrow> jsnum" where
  "getShockVelocity m =
     (let R_pc = getShockRadius m;
          R_cm = jmul R_pc (Fin 3086000000000000000);
          t_sec = jmul (time m) (Fin 31560000)
      in jdiv (jdiv (jmul (Fin 0.4) R_cm) t_sec) (Fin 100000))"

text \<open>Temperature behind the shock in kelvin.\<close>

definition getShockTemperature :: "SupernovaModel \<Rightarrow> jsnum" where
  "getShockTemperature m =
     (let v_shock = jmul (getShockVelocity m) (Fin 100000);
          mu = Fin 0.6;
          k_B = Fin (138 / 10 ^ 18)
      in jdiv (jmul (jmul (Fin (3 / 16)) mu) (Math_pow v_shock 2)) k_B)"

text \<open>The body of the inner loop of \<open>initializeParticles\<close>: one new particle.\<close>

definition newParticle :: "element \<Rightarrow> nat \<Rightarrow> rng \<Rightarrow> particle \<times> rng" where
  "newParticle elem particleId g =
     (let (s, g1) = d3_randomNormal 0 0.1 g;
          r0 = jmul (Math_abs (Fin s)) (Fin 0.1);
          (u0, g2) = Math_random g1;
          u = jsub (jmul (Fin u0) (Fin 2)) (Fin 1);
          phi = Math_acos u;
          (t0, g3) = Math_random g2;
          theta = jmul (jmul (Fin t0) (Fin 2)) Math_PI;
          (m0, g4) = Math_random g3;
          mass = jmul (jmul (Fin (el_A elem)) (Fin (166 / 10 ^ 26))) (jadd (Fin 0.5) (Fin m0))
      in (\<lparr>p_id = particleId, p_element = el_name elem, p_mass = mass, p_A = el_A elem,
           p_color = el_color elem,
           p_diffusionCoeff = jdiv (Fin (el_D0 elem)) (Math_sqrt (Fin (el_A elem))),
           p_xi = r0, p_theta = theta, p_phi = phi,
           p_x = Fin 0, p_y = Fin 0, p_z = Fin 0,
           p_vx = Fin 0, p_vy = Fin 0, p_vz = Fin 0,
           p_temperature = Fin 0, p_density = Fin 0\<rparr>, g4))"

text \<open>
  \<open>for (let i = 0; i < nParticles; i++)\<close>, by the number of iterations left. The result
  is the particles pushed, the next free id and the random sources.
\<close>

fun particle_loop :: "element \<Rightarrow> nat \<Rightarrow> nat \<Rightarrow> rng \<Rightarrow> particle list \<times> nat \<times> rng" where
  "particle_loop elem 0 particleId g = ([], particleId, g)"
| "particle_loop elem (Suc n) particleId g =
     (let (p, g1) = newParticle elem particleId g;
          (ps, particleId', g') = particle_loop elem n (Suc particleId) g1
      in (p # ps, particleId', g'))"

text \<open>\<open>this.elements.forEach\<close> with \<open>totalParticles = 2000\<close>.\<close>

fun elements_forEach :: "element list \<Rightarrow> nat \<Rightarrow> rng \<Rightarrow> particle list \<times> nat \<times> rng" where
  "elements_forEach [] particleId g = ([], particleId, g)"
| "elements_forEach (elem # es) particleId g =
     (let nParticles = \<lfloor>2000 * el_massFrac elem\<rfloor>;
          (ps, particleId1, g1) = particle_loop elem (nat nParticles) particleId g;
          (qs, particleId2, g2) = elements_forEach es particleId1 g1
      in (ps @ qs, particleId2, g2))"

definition initializeParticles :: "SupernovaModel \<Rightarrow> rng \<Rightarrow> SupernovaModel \<times> rng" where
  "initializeParticles m g =
     (let (ps, particleId, g') = elements_forEach (elements m) 0 g
      in (m\<lparr>particles := particles m @ ps\<rparr>, g'))"

text \<open>The constructor. It has no \<open>throw\<close> and calls nothing that throws.\<close>

definition new_SupernovaModel :: "config \<Rightarrow> rng \<Rightarrow> SupernovaModel \<times> rng" where
  "new_SupernovaModel cfg g =
     initializeParticles
       \<lparr>energy = or_default (cfg_energy cfg) (Fin (10 ^ 51)),
        density = or_default (cfg_density cfg) (Fin (1 / 10 ^ 24)),
        time = Fin 0,
        elements = (case cfg_elements cfg of None \<Rightarrow> default_elements | Some es \<Rightarrow> es),
        particles = []\<rparr> g"

definition velocityProfile :: "jsnum \<Rightarrow> jsnum" where
  "velocityProfile xi =
     (if jlt xi (Fin 0.8)
      then jadd (jsub (Fin 1) (jmul (Fin 1.2) xi)) (jmul (jmul (Fin 0.8) xi) xi)
      else jdiv (jmul (Fin 0.5) (jsub (Fin 1) xi)) (jsub (Fin 1) (Fin 0.8)))"

definition densityProfile :: "jsnum \<Rightarrow> jsnum" where
  "densityProfile xi =
     (let gamma = (5 / 3 :: real);
          alpha = (gamma + 1) / (gamma - 1)
      in jmul (Math_pow (jsub (Fin 1) xi) (1 / (gamma - 1)))
              (Math_pow (jsub (Fin 1) (jdiv xi (Fin alpha))) (- 1)))"

text \<open>
  The callback of \<open>this.particles.forEach\<close> in \<open>update\<close>. The shock quantities are
  computed once per step by the caller. \<open>diffTheta\<close> is drawn and never used.
\<close>

definition update_particle ::
  "SupernovaModel \<Rightarrow> jsnum \<Rightarrow> jsnum \<Rightarrow> jsnum \<Rightarrow> jsnum \<Rightarrow> jsnum \<Rightarrow> particle \<Rightarrow> rng \<Rightarrow> particle \<times> rng" where
  "update_particle m dt R_shock_pc R_shock_cm v_shock_kms T_shock p g =
     (let v_factor = velocityProfile (p_xi p);
          v_radial = jmul (jmul v_shock_kms (Fin 100000)) v_factor;
          dt_sec = jmul dt (Fin 31560000);
          diffusionDist = Math_sqrt (jmul (jmul (Fin 2) (p_diffusionCoeff p)) dt_sec);
          (u0, g1) = Math_random g;
          u = jsub (jmul (Fin u0) (Fin 2)) (Fin 1);
          diffPhi = Math_acos u;
          (d0, g2) = Math_random g1;
          diffTheta = jmul (jmul (Fin d0) (Fin 2)) Math_PI;
          radialStep = jadd (jmul v_radial dt_sec) (jmul diffusionDist (Math_cos diffPhi));
          dxi = jdiv radialStep R_shock_cm;
          xi = Math_min (Fin 1) (Math_max (Fin 0) (jadd (p_xi p) dxi));
          (j1, g3) = Math_random g2;
          theta = jadd (p_theta p) (jmul (jsub (Fin j1) (Fin 0.5)) (Fin 0.15));
          (j2, g4) = Math_random g3;
          phi1 = jadd (p_phi p) (jmul (jsub (Fin j2) (Fin 0.5)) (Fin 0.15));
          phi2 = (if jlt phi1 (Fin 0) then jneg phi1 else phi1);
          phi = (if jgt phi2 Math_PI then jsub (jmul (Fin 2) Math_PI) phi2 else phi2);
          r_pc = jmul xi R_shock_pc;
          sinPhi = Math_sin phi;
          cosPhi = Math_cos phi;
          cosTheta = Math_cos theta;
          sinTheta = Math_sin theta;
          v_cart = v_radial
      in (p\<lparr>p_xi := xi, p_theta := theta, p_phi := phi,
             p_x := jmul (jmul r_pc sinPhi) cosTheta,
             p_y := jmul (jmul r_pc sinPhi) sinTheta,
             p_z := jmul r_pc cosPhi,
             p_vx := jmul (jmul v_cart sinPhi) cosTheta,
             p_vy := jmul (jmul v_cart sinPhi) sinTheta,
             p_vz := jmul v_cart cosPhi,
             p_temperature := jmul T_shock (Math_pow (jsub (Fin 1) xi) 0.5),
             p_density := jmul (density m) (densityProfile xi)\<rparr>, g4))"

text \<open>\<open>forEach\<close> over an array whose callback consumes random values.\<close>

fun forEach_rng :: "('a \<Rightarrow> rng \<Rightarrow> 'a \<times> rng) \<Rightarrow> 'a list \<Rightarrow> rng \<Rightarrow> 'a list \<times> rng" where
  "forEach_rng f [] g = ([], g)"
| "forEach_rng f (p # ps) g =
     (let (p', g1) = f p g;
          (ps', g') = forEach_rng f ps g1
      in (p' # ps', g'))"

definition update :: "jsnum \<Rightarrow> SupernovaModel \<Rightarrow> rng \<Rightarrow> SupernovaModel \<times> rng" where
  "update dt m g =
     (let m1 = m\<lparr>time := jadd (time m) dt\<rparr>;
          R_shock_pc = getShockRadius m1;
          R_shock_cm = jmul R_shock_pc (Fin 3086000000000000000);
          v_shock_kms = getShockVelocity m1;
          T_shock = getShockTemperature m1;
          (ps, g') = forEach_rng (update_particle m1 dt R_shock_pc R_shock_cm v_shock_kms T_shock)
                       (particles m1) g
      in (m1\<lparr>particles := ps\<rparr>, g'))"

definition getParticles :: "SupernovaModel \<Rightarrow> particle list" where
  "getParticles m = particles m"

record ShockState =
  st_time :: jsnum
  st_radius :: jsnum
  st_velocity :: jsnum
  st_temperature :: jsnum

definition getState :: "SupernovaModel \<Rightarrow> ShockState" where
  "getState m =
     \<lparr>st_time = time m, st_radius = getShockRadius m,
      st_velocity = getShockVelocity m, st_temperature = getShockTemperature m\<rparr>"

text \<open>A run of the driver: one \<open>update\<close> per element of the list of time steps.\<close>

fun run_updates :: "jsnum list \<Rightarrow> SupernovaModel \<Rightarrow> rng \<Rightarrow> SupernovaModel \<times> rng" where
  "run_updates [] m g = (m, g)"
| "run_updates (dt # dts) m g = (let (m1, g1) = update dt m g in run_updates dts m1 g1)"

section \<open>The statistics aggregator (data-manager.js)\<close>

text \<open>
  The only exception the program can raise: reading a property of \<open>undefined\<close>, when the
  radial histogram is indexed outside its bins.
\<close>

datatype js_error = TypeError

record HistBin =
  hb_count :: jsnum
  hb_mass :: jsnum

record RadialBin =
  rd_radius :: jsnum
  rd_count :: jsnum
  rd_density :: jsnum

record AngularBin =
  ad_angle :: jsnum
  ad_count :: jsnum

record TimeSeriesSample =
  ts_time :: jsnum
  ts_radius :: jsnum
  ts_velocity :: jsnum
  ts_temperature :: jsnum
  ts_particleCount :: nat

text \<open>
  \<open>this.data\<close>. A slot of \<open>angularDist\<close> that is \<open>None\<close> is a hole of the array: a write
  beyond the end of a JavaScript array extends it, and \<open>map\<close> keeps the holes.
\<close>

record Data =
  d_particles :: "particle list"
  radialDist :: "RadialBin list"
  angularDist :: "AngularBin option list"
  timeSeries :: "TimeSeriesSample list"

record BinConfig =
  radial :: nat
  angular :: nat
  maxHistory :: nat

text \<open>
  The manager holds a reference to the model, which the driver mutates between calls;
  here every method takes the model's current value as an argument.
\<close>

record DataManager =
  data :: Data
  binConfig :: BinConfig

definition new_DataManager :: DataManager where
  "new_DataManager =
     \<lparr>data = \<lparr>d_particles = [], radialDist = [], angularDist = [], timeSeries = []\<rparr>,
      binConfig = \<lparr>radial = 50, angular = 36, maxHistory = 100\<rparr>\<rparr>"

text \<open>
  The element a number selects in an array: only a non-negative integer is an array
  index; anything else (\<open>NaN\<close>, a negative number, an infinity) names an ordinary property.
\<close>

fun array_index :: "jsnum \<Rightarrow> nat option" where
  "array_index (Fin r) = (if 0 \<le> r \<and> r = of_int \<lfloor>r\<rfloor> then Some (nat \<lfloor>r\<rfloor>) else None)"
| "array_index v = None"

text \<open>The 3D radius of a particle, \<open>Math.sqrt(p.x**2 + p.y**2 + (p.z || 0)**2)\<close>.\<close>

definition radius3 :: "particle \<Rightarrow> jsnum" where
  "radius3 p =
     Math_sqrt (jadd (jadd (Math_pow (p_x p) 2) (Math_pow (p_y p) 2))
                     (Math_pow (or_default (Some (p_z p)) (Fin 0)) 2))"

definition radial_binIdx :: "nat \<Rightarrow> jsnum \<Rightarrow> particle \<Rightarrow> jsnum" where
  "radial_binIdx bins maxRadius p =
     Math_min (Fin (real bins - 1))
       (Math_floor (jmul (jdiv (radius3 p) maxRadius) (Fin (real bins))))"

text \<open>
  The callback of the radial \<open>forEach\<close>: \<open>hist[binIdx].count++\<close> raises \<open>TypeError\<close> when
  \<open>hist[binIdx]\<close> is \<open>undefined\<close>.
\<close>

definition radial_count :: "nat \<Rightarrow> jsnum \<Rightarrow> HistBin list \<Rightarrow> particle \<Rightarrow> js_error + HistBin list" where
  "radial_count bins maxRadius hist p =
     (case array_index (radial_binIdx bins maxRadius p) of
        None \<Rightarrow> Inl TypeError
      | Some i \<Rightarrow>
          if i < length hist
          then Inr (hist[i := \<lparr>hb_count = jadd (hb_count (hist ! i)) (Fin 1),
                               hb_mass = jadd (hb_mass (hist ! i)) (p_mass p)\<rparr>])
          else Inl TypeError)"

fun radial_forEach :: "nat \<Rightarrow> jsnum \<Rightarrow> particle list \<Rightarrow> HistBin list \<Rightarrow> js_error + HistBin list" where
  "radial_forEach bins maxRadius [] hist = Inr hist"
| "radial_forEach bins maxRadius (p # ps) hist =
     (case radial_count bins maxRadius hist p of
        Inl e \<Rightarrow> Inl e
      | Inr hist' \<Rightarrow> radial_forEach bins maxRadius ps hist')"

definition radial_bin :: "nat \<Rightarrow> jsnum \<Rightarrow> nat \<times> HistBin \<Rightarrow> RadialBin" where
  "radial_bin bins maxRadius ih =
     (case ih of (i, h) \<Rightarrow>
        \<lparr>rd_radius = jdiv (jmul (Fin (real i + 0.5)) maxRadius) (Fin (real bins)),
         rd_count = hb_count h,
         rd_density =
           jdiv (hb_mass h)
             (jmul (jmul Math_PI (Fin ((real i + 1) ^ 2 - (real i) ^ 2)))
                   (Math_pow (jdiv maxRadius (Fin (real bins))) 2))\<rparr>)"

definition updateRadialDistribution :: "DataManager \<Rightarrow> SupernovaModel \<Rightarrow> js_error + DataManager" where
  "updateRadialDistribution dm m =
     (let bins = radial (binConfig dm);
          maxRadius = getShockRadius m;
          hist0 = replicate bins \<lparr>hb_count = Fin 0, hb_mass = Fin 0\<rparr>
      in case radial_forEach bins maxRadius (d_particles (data dm)) hist0 of
           Inl e \<Rightarrow> Inl e
         | Inr hist \<Rightarrow>
             Inr (dm\<lparr>data := (data dm)\<lparr>radialDist :=
                    map (radial_bin bins maxRadius) (enumerate 0 hist)\<rparr>\<rparr>))"

definition angular_binIdx :: "nat \<Rightarrow> particle \<Rightarrow> jsnum" where
  "angular_binIdx bins p =
     (let angle = jadd (Math_atan2 (p_y p) (p_x p)) Math_PI
      in Math_floor (jmul (jdiv angle (jmul (Fin 2) Math_PI)) (Fin (real bins))))"

text \<open>
  \<open>hist[binIdx]++\<close> on an array of numbers. Inside the array the slot is incremented.
  At or beyond the end the slot reads \<open>undefined\<close>, the increment gives \<open>NaN\<close>, and
  storing it extends the array. A number that is no array index sets a property and
  leaves the elements alone.
\<close>

definition array_incr :: "jsnum option list \<Rightarrow> jsnum \<Rightarrow> jsnum option list" where
  "array_incr hist binIdx =
     (case array_index binIdx of
        None \<Rightarrow> hist
      | Some i \<Rightarrow>
          if i < length hist
          then hist[i := (case hist ! i of Some c \<Rightarrow> Some (jadd c (Fin 1)) | None \<Rightarrow> Some NaN)]
          else hist @ replicate (i - length hist) None @ [Some NaN])"

fun angular_forEach :: "nat \<Rightarrow> particle list \<Rightarrow> jsnum option list \<Rightarrow> jsnum option list" where
  "angular_forEach bins [] hist = hist"
| "angular_forEach bins (p # ps) hist =
     angular_forEach bins ps (array_incr hist (angular_binIdx bins p))"

definition angular_bin :: "nat \<Rightarrow> nat \<times> jsnum option \<Rightarrow> AngularBin option" where
  "angular_bin bins ic =
     (case ic of (i, slot) \<Rightarrow>
        map_option (\<lambda>c. \<lparr>ad_angle = jdiv (jmul (jmul (Fin (real i + 0.5)) (Fin 2)) Math_PI)
                                       (Fin (real bins)),
                         ad_count = c\<rparr>) slot)"

definition updateAngularDistribution :: "DataManager \<Rightarrow> DataManager" where
  "updateAngularDistribution dm =
     (let bins = angular (binConfig dm);
          hist = angular_forEach bins (d_particles (data dm)) (replicate bins (Some (Fin 0)))
      in dm\<lparr>data := (data dm)\<lparr>angularDist := map (angular_bin bins) (enumerate 0 hist)\<rparr>\<rparr>)"

definition sample_of :: "DataManager \<Rightarrow> SupernovaModel \<Rightarrow> TimeSeriesSample" where
  "sample_of dm m =
     (let state = getState m
      in \<lparr>ts_time = st_time state, ts_radius = st_radius state,
          ts_velocity = st_velocity state, ts_temperature = st_temperature state,
          ts_particleCount = length (d_particles (data dm))\<rparr>)"

text \<open>\<open>push\<close> one sample, then \<open>shift\<close> once if the series is longer than the cap.\<close>

definition updateTimeSeries :: "DataManager \<Rightarrow> SupernovaModel \<Rightarrow> DataManager" where
  "updateTimeSeries dm m =
     (let pushed = timeSeries (data dm) @ [sample_of dm m]
      in dm\<lparr>data := (data dm)\<lparr>timeSeries :=
              (if maxHistory (binConfig dm) < length pushed then tl pushed else pushed)\<rparr>\<rparr>)"

text \<open>
  \<open>update()\<close>, the ingest. When \<open>updateRadialDistribution\<close> raises, the call ends there:
  \<open>data.particles\<close> has been replaced and the histograms and the time series are as before.
\<close>

definition DataManager_update :: "DataManager \<Rightarrow> SupernovaModel \<Rightarrow> js_error + DataManager" where
  "DataManager_update dm m =
     (let dm1 = dm\<lparr>data := (data dm)\<lparr>d_particles := getParticles m\<rparr>\<rparr>
      in case updateRadialDistribution dm1 m of
           Inl e \<Rightarrow> Inl e
         | Inr dm2 \<Rightarrow> Inr (updateTimeSeries (updateAngularDistribution dm2) m))"

text \<open>Whether a call of \<open>update()\<close> returns; otherwise it raises.\<close>

definition returns :: "DataManager \<Rightarrow> SupernovaModel \<Rightarrow> bool" where
  "returns dm m = (case DataManager_update dm m of Inl e \<Rightarrow> False | Inr dm' \<Rightarrow> True)"

text \<open>
  The manager object after a call of \<open>update()\<close>, whether the call returned or raised:
  a call that raises has replaced \<open>data.particles\<close> and nothing else.
\<close>

definition after_update :: "DataManager \<Rightarrow> SupernovaModel \<Rightarrow> DataManager" where
  "after_update dm m =
     (case DataManager_update dm m of
        Inl e \<Rightarrow> dm\<lparr>data := (data dm)\<lparr>d_particles := getParticles m\<rparr>\<rparr>
      | Inr dm' \<Rightarrow> dm')"

text \<open>
  A run of ingests: \<open>update()\<close> is called once for each model state of the list, in order,
  on the same manager.
\<close>

fun ingest_all :: "SupernovaModel list \<Rightarrow> DataManager \<Rightarrow> DataManager" where
  "ingest_all [] dm = dm"
| "ingest_all (m # ms) dm = ingest_all ms (after_update dm m)"

text \<open>A new manager whose \<open>binConfig.maxHistory\<close> has been set to \<open>cap\<close>.\<close>

definition manager_with_cap :: "nat \<Rightarrow> DataManager" where
  "manager_with_cap cap =
     new_DataManager\<lparr>binConfig := (binConfig new_DataManager)\<lparr>maxHistory := cap\<rparr>\<rparr>"

text \<open>
  The sample \<open>updateTimeSeries\<close> pushes during an ingest of the model state \<open>m\<close>: by then
  \<open>data.particles\<close> is \<open>m\<close>'s particle array.
\<close>

definition ingest_sample :: "SupernovaModel \<Rightarrow> TimeSeriesSample" where
  "ingest_sample m =
     sample_of (new_DataManager\<lparr>data := (data new_DataManager)\<lparr>d_particles := getParticles m\<rparr>\<rparr>) m"

text \<open>The sum of a list of counts, with JavaScript's addition.\<close>

fun sum_counts :: "jsnum list \<Rightarrow> jsnum" where
  "sum_counts [] = Fin 0"
| "sum_counts (c # cs) = jadd c (sum_counts cs)"

section \<open>Runs and sample inputs\<close>

text \<open>Construction followed by one \<open>update\<close> per time step, as the driver does.\<close>

definition simulate :: "config \<Rightarrow> rng \<Rightarrow> jsnum list \<Rightarrow> SupernovaModel \<times> rng" where
  "simulate cfg g dts = (let (m, g1) = new_SupernovaModel cfg g in run_updates dts m g1)"

text \<open>The model states the driver hands to the aggregator: the state after each step.\<close>

definition trajectory :: "config \<Rightarrow> rng \<Rightarrow> jsnum list \<Rightarrow> SupernovaModel list" where
  "trajectory cfg g dts = map (\<lambda>k. fst (simulate cfg g (take k dts))) [1..<Suc (length dts)]"

text \<open>\<open>lo <= v && v <= hi\<close>.\<close>

definition between :: "real \<Rightarrow> real \<Rightarrow> jsnum \<Rightarrow> bool" where
  "between lo hi v = (jle (Fin lo) v \<and> jle v (Fin hi))"

text \<open>\<open>new SupernovaModel()\<close>: every field of the configuration is missing.\<close>

definition default_config :: config where
  "default_config = \<lparr>cfg_energy = None, cfg_density = None, cfg_elements = None\<rparr>"

text \<open>
  Two states of the random sources: one where \<open>Math.random()\<close> always returns \<open>0.5\<close> and the
  normal deviate is \<open>0\<close>, one where the normal deviate is \<open>1\<close>.
\<close>

definition half_rng :: rng where
  "half_rng = \<lparr>uniform = (\<lambda>k. 1 / 2), gauss = (\<lambda>k. 0), used_uniform = 0, used_gauss = 0\<rparr>"

definition unit_rng :: rng where
  "unit_rng = \<lparr>uniform = (\<lambda>k. 1 / 2), gauss = (\<lambda>k. 1), used_uniform = 0, used_gauss = 0\<rparr>"

text \<open>Particles at given Cartesian positions, for the aggregator.\<close>

definition particle_at :: "real \<Rightarrow> real \<Rightarrow> real \<Rightarrow> particle" where
  "particle_at a b c =
     \<lparr>p_id = 0, p_element = ''Fe'', p_mass = Fin (93 / 10 ^ 24), p_A = 56, p_color = ''#e74c3c'',
      p_diffusionCoeff = Fin (10 ^ 18 / sqrt 56),
      p_xi = Fin 0, p_theta = Fin 0, p_phi = Fin 0,
      p_x = Fin a, p_y = Fin b, p_z = Fin c,
      p_vx = Fin 0, p_vy = Fin 0, p_vz = Fin 0,
      p_temperature = Fin 0, p_density = Fin 0\<rparr>"

text \<open>The static part of a particle: what no \<open>update\<close> changes.\<close>

definition identity_of :: "particle \<Rightarrow> nat \<times> string \<times> real \<times> string \<times> jsnum" where
  "identity_of p = (p_id p, p_element p, p_A p, p_color p, p_diffusionCoeff p)"

text \<open>
  Two states of the random sources from which the same values are about to be drawn:
  the values \<open>Math.random()\<close> and the normal sampler will return, call after call, agree.
\<close>

definition same_draws :: "rng \<Rightarrow> rng \<Rightarrow> bool" where
  "same_draws g1 g2 =
     (\<forall>k. uniform g1 (used_uniform g1 + k) = uniform g2 (used_uniform g2 + k) \<and>
          gauss g1 (used_gauss g1 + k) = gauss g2 (used_gauss g2 + k))"

section \<open>Preconditions of the simulation\<close>

text \<open>
  The inputs the simulation is meant for. A step \<open>dt\<close>, an energy and a density are
  positive finite numbers. \<open>Math.random()\<close> returns a value in \<open>[0, 1)\<close>. The normal
  deviates are bounded by \<open>100\<close> in absolute value, which makes the initial \<open>xi\<close> at most
  \<open>1\<close>; a sampler that computes in double precision by the polar method stays far below
  this bound. A species has a positive mass number and a non-negative
  diffusion scale.
\<close>

fun positive :: "jsnum \<Rightarrow> bool" where
  "positive (Fin r) = (0 < r)"
| "positive v = False"

definition rng_ok :: "rng \<Rightarrow> bool" where
  "rng_ok g = (\<forall>k. 0 \<le> uniform g k \<and> uniform g k < 1 \<and> \<bar>gauss g k\<bar> \<le> 100)"

text \<open>
  What holds of a particle of such a run: \<open>xi\<close> in \<open>[0,1]\<close>, \<open>phi\<close> in \<open>[0,\<pi>]\<close>, and a finite
  azimuth, diffusion coefficient and position.
\<close>

definition particle_ok :: "particle \<Rightarrow> bool" where
  "particle_ok p =
     (between 0 1 (p_xi p) \<and> between 0 pi (p_phi p) \<and> isFin (p_theta p) \<and>
      jle (Fin 0) (p_diffusionCoeff p) \<and> isFin (p_diffusionCoeff p) \<and>
      isFin (p_x p) \<and> isFin (p_y p) \<and> isFin (p_z p))"

definition element_ok :: "element \<Rightarrow> bool" where
  "element_ok el = (0 < el_A el \<and> 0 \<le> el_D0 el)"

definition config_ok :: "config \<Rightarrow> bool" where
  "config_ok cfg =
     ((case cfg_energy cfg of None \<Rightarrow> True | Some v \<Rightarrow> positive v) \<and>
      (case cfg_density cfg of None \<Rightarrow> True | Some v \<Rightarrow> positive v) \<and>
      list_all element_ok (case cfg_elements cfg of None \<Rightarrow> default_elements | Some es \<Rightarrow> es))"

definition model_ok :: "SupernovaModel \<Rightarrow> bool" where
  "model_ok m =
     (positive (energy m) \<and> positive (density m) \<and> jle (Fin 0) (time m) \<and> isFin (time m) \<and>
      list_all particle_ok (particles m))"

section \<open>Basic facts\<close>

subsection \<open>Finite numbers\<close>

lemma isFin_iff: "isFin v \<longleftrightarrow> (\<exists>r. v = Fin r)"
  by (cases v) auto

lemma between_Fin [simp]: "between lo hi (Fin r) \<longleftrightarrow> lo \<le> r \<and> r \<le> hi"
  by (simp add: between_def)

lemma between_iff: "between lo hi v \<longleftrightarrow> (\<exists>r. v = Fin r \<and> lo \<le> r \<and> r \<le> hi)"
  by (cases v) (auto simp: between_def)

lemma jsub_Fin [simp]: "jsub (Fin a) (Fin b) = Fin (a - b)"
  by (simp add: jsub_def)

lemma clamp_between: "between 0 1 (Math_min (Fin 1) (Math_max (Fin 0) (Fin y)))"
  by simp

subsection \<open>Fields that construction and update leave alone\<close>

lemma initializeParticles_fields:
  "energy (fst (initializeParticles m g)) = energy m"
  "density (fst (initializeParticles m g)) = density m"
  "time (fst (initializeParticles m g)) = time m"
  "elements (fst (initializeParticles m g)) = elements m"
  by (simp_all add: initializeParticles_def split_def Let_def)

lemma new_SupernovaModel_fields:
  "energy (fst (new_SupernovaModel cfg g)) = or_default (cfg_energy cfg) (Fin (10 ^ 51))"
  "density (fst (new_SupernovaModel cfg g)) = or_default (cfg_density cfg) (Fin (1 / 10 ^ 24))"
  "time (fst (new_SupernovaModel cfg g)) = Fin 0"
  "elements (fst (new_SupernovaModel cfg g)) =
     (case cfg_elements cfg of None \<Rightarrow> default_elements | Some es \<Rightarrow> es)"
  by (simp_all add: new_SupernovaModel_def initializeParticles_fields)

lemma new_SupernovaModel_particles:
  "particles (fst (new_SupernovaModel cfg g)) =
     fst (elements_forEach (case cfg_elements cfg of None \<Rightarrow> default_elements | Some es \<Rightarrow> es) 0 g)"
  by (simp add: new_SupernovaModel_def initializeParticles_def split_def Let_def)

lemma update_fields:
  "energy (fst (update dt m g)) = energy m"
  "density (fst (update dt m g)) = density m"
  "time (fst (update dt m g)) = jadd (time m) dt"
  "elements (fst (update dt m g)) = elements m"
  by (simp_all add: update_def Let_def split_def)

subsection \<open>The size of the ensemble\<close>

lemma particle_loop_length: "length (fst (particle_loop elem n pid g)) = n"
  by (induction n arbitrary: pid g) (simp_all add: split_def Let_def)

lemma elements_forEach_length:
  "length (fst (elements_forEach es pid g)) =
     sum_list (map (\<lambda>el. nat \<lfloor>2000 * el_massFrac el\<rfloor>) es)"
  by (induction es arbitrary: pid g) (simp_all add: split_def Let_def particle_loop_length)

lemma default_ensemble_size:
  "sum_list (map (\<lambda>el. nat \<lfloor>2000 * el_massFrac el\<rfloor>) default_elements) = 2000"
  by (simp add: default_elements_def)

section \<open>Construction\<close>

text \<open>
  C1, as stated: construction with \<open>energy \<le> 0\<close> fails with \<open>InvalidConfiguration\<close> and
  creates no particles. The constructor has no validation: with \<open>energy = -1\<close> it returns
  a model whose energy is \<open>-1\<close> and whose ensemble has all 2000 particles.
\<close>

theorem C1_counterexample:
  "energy (fst (new_SupernovaModel
      \<lparr>cfg_energy = Some (Fin (- 1)), cfg_density = None, cfg_elements = None\<rparr> half_rng)) = Fin (- 1)
   \<and> length (particles (fst (new_SupernovaModel
      \<lparr>cfg_energy = Some (Fin (- 1)), cfg_density = None, cfg_elements = None\<rparr> half_rng))) = 2000"
  by (simp add: new_SupernovaModel_fields new_SupernovaModel_particles elements_forEach_length
      default_ensemble_size)

text \<open>
  C1, amended: construction never rejects an energy or a density. Any truthy value
  (every number but \<open>0\<close> and \<open>NaN\<close>, so also a negative one) is stored as it is given, and
  the ensemble is created with \<open>floor(2000 * massFrac)\<close> particles for each species.
\<close>

theorem C1_no_validation:
  assumes "truthy e" and "truthy d"
  shows "energy (fst (new_SupernovaModel
            \<lparr>cfg_energy = Some e, cfg_density = Some d, cfg_elements = es\<rparr> g)) = e
       \<and> density (fst (new_SupernovaModel
            \<lparr>cfg_energy = Some e, cfg_density = Some d, cfg_elements = es\<rparr> g)) = d
       \<and> length (particles (fst (new_SupernovaModel
            \<lparr>cfg_energy = Some e, cfg_density = Some d, cfg_elements = es\<rparr> g))) =
         sum_list (map (\<lambda>el. nat \<lfloor>2000 * el_massFrac el\<rfloor>)
           (case es of None \<Rightarrow> default_elements | Some l \<Rightarrow> l))"
  using assms
  by (simp add: new_SupernovaModel_fields new_SupernovaModel_particles elements_forEach_length)

text \<open>C1, amended, at \<open>energy = -1\<close> and \<open>density = -3\<close> with the default species.\<close>

theorem C1_no_validation_witness:
  "truthy (Fin (- 1)) \<and> truthy (Fin (- 3))
   \<and> energy (fst (new_SupernovaModel
        \<lparr>cfg_energy = Some (Fin (- 1)), cfg_density = Some (Fin (- 3)), cfg_elements = None\<rparr>
        unit_rng)) = Fin (- 1)
   \<and> density (fst (new_SupernovaModel
        \<lparr>cfg_energy = Some (Fin (- 1)), cfg_density = Some (Fin (- 3)), cfg_elements = None\<rparr>
        unit_rng)) = Fin (- 3)
   \<and> length (particles (fst (new_SupernovaModel
        \<lparr>cfg_energy = Some (Fin (- 1)), cfg_density = Some (Fin (- 3)), cfg_elements = None\<rparr>
        unit_rng))) = 2000"
  using C1_no_validation [of "Fin (- 1)" "Fin (- 3)" None unit_rng]
  by (simp add: default_ensemble_size)

text \<open>
  C10: an energy or a density of \<open>0\<close> is falsy, so \<open>||\<close> replaces it by the default; the
  constructor returns exactly what it returns when the field is missing (energy
  \<open>1e51\<close>, density \<open>1e-24\<close>), and with the default species the ensemble has 2000 particles.
\<close>

theorem C10_zero_is_default:
  "new_SupernovaModel (cfg\<lparr>cfg_energy := Some (Fin 0)\<rparr>) g =
     new_SupernovaModel (cfg\<lparr>cfg_energy := None\<rparr>) g
   \<and> new_SupernovaModel (cfg\<lparr>cfg_density := Some (Fin 0)\<rparr>) g =
     new_SupernovaModel (cfg\<lparr>cfg_density := None\<rparr>) g
   \<and> energy (fst (new_SupernovaModel (cfg\<lparr>cfg_energy := Some (Fin 0)\<rparr>) g)) = Fin (10 ^ 51)
   \<and> density (fst (new_SupernovaModel (cfg\<lparr>cfg_density := Some (Fin 0)\<rparr>) g)) = Fin (1 / 10 ^ 24)
   \<and> length (particles (fst (new_SupernovaModel
        \<lparr>cfg_energy = Some (Fin 0), cfg_density = Some (Fin 0), cfg_elements = None\<rparr> g))) = 2000"
  by (simp add: new_SupernovaModel_def initializeParticles_def split_def Let_def
      elements_forEach_length default_ensemble_size)


section \<open>The shock laws\<close>

subsection \<open>The shock laws at positive time\<close>

lemma getShockRadius_positive:
  assumes "energy m = Fin e" "density m = Fin d" "time m = Fin t" "0 < e" "0 < d" "0 < t"
  shows "getShockRadius m =
           Fin (1.15 * (e / d) powr 0.2 * (t * 31560000) powr 0.4 / 3086000000000000000)"
  using assms by (simp add: getShockRadius_def)

lemma getShockVelocity_positive:
  assumes "energy m = Fin e" "density m = Fin d" "time m = Fin t" "0 < e" "0 < d" "0 < t"
  shows "getShockVelocity m =
           Fin (0.4 * (1.15 * (e / d) powr 0.2 * (t * 31560000) powr 0.4) / (t * 31560000) / 100000)"
  using assms by (simp add: getShockVelocity_def getShockRadius_positive)

lemma getShockVelocity_gt0:
  assumes "energy m = Fin e" "density m = Fin d" "time m = Fin t" "0 < e" "0 < d" "0 < t"
  shows "\<exists>v. 0 < v \<and> getShockVelocity m = Fin v"
  using assms by (simp add: getShockVelocity_positive)

lemma getShockTemperature_of_velocity:
  assumes "getShockVelocity m = Fin v" "0 < v"
  shows "getShockTemperature m = Fin (3 / 16 * 0.6 * (v * 100000) powr 2 / (138 / 10 ^ 18))"
  using assms by (simp add: getShockTemperature_def)

lemma getShockTemperature_positive:
  assumes "energy m = Fin e" "density m = Fin d" "time m = Fin t" "0 < e" "0 < d" "0 < t"
  shows "\<exists>T. 0 < T \<and> getShockTemperature m = Fin T"
proof -
  obtain v where v: "0 < v" "getShockVelocity m = Fin v"
    using getShockVelocity_gt0[OF assms] by blast
  have "0 < 3 / 16 * 0.6 * (v * 100000) powr 2 / (138 / 10 ^ 18)"
    using v(1) by simp
  then show ?thesis
    using getShockTemperature_of_velocity[OF v(2) v(1)] by blast
qed

lemma getShockRadius_nonneg_time:
  assumes "energy m = Fin e" "density m = Fin d" "time m = Fin t" "0 < e" "0 < d" "0 \<le> t"
  shows "getShockRadius m =
           Fin (1.15 * (e / d) powr 0.2 * (t * 31560000) powr 0.4 / 3086000000000000000)"
  using assms by (cases "t = 0") (simp_all add: getShockRadius_def)

subsection \<open>The shock laws at time zero\<close>

lemma jmul_zero_cases: "jmul v (Fin 0) = Fin 0 \<or> jmul v (Fin 0) = NaN"
  by (cases v) simp_all

lemma getShockVelocity_time0:
  assumes "time m = Fin 0"
  shows "getShockVelocity m = NaN"
proof -
  define f where "f = jmul (Fin 1.15) (Math_pow (jdiv (energy m) (density m)) 0.2)"
  have r: "getShockRadius m = jdiv (jmul f (Fin 0)) (Fin 3086000000000000000)"
    using assms by (simp add: getShockRadius_def f_def)
  from jmul_zero_cases[of f] have "getShockRadius m = Fin 0 \<or> getShockRadius m = NaN"
    by (auto simp: r)
  then show ?thesis
    using assms by (auto simp: getShockVelocity_def)
qed

lemma getShockTemperature_time0:
  assumes "time m = Fin 0"
  shows "getShockTemperature m = NaN"
  by (simp add: getShockTemperature_def getShockVelocity_time0[OF assms])

text \<open>
  C2, as stated: before the first step \<open>state().velocity\<close> and \<open>state().temperature\<close> are
  \<open>0\<close>, not \<open>NaN\<close>. For \<open>new SupernovaModel()\<close> both are \<open>NaN\<close>: \<open>getShockVelocity\<close> divides
  \<open>0.4 * R_cm = 0\<close> by \<open>t_sec = 0\<close>, and no function tests \<open>time\<close>.
\<close>

theorem C2_counterexample:
  "st_velocity (getState (fst (new_SupernovaModel default_config half_rng))) = NaN
   \<and> st_temperature (getState (fst (new_SupernovaModel default_config half_rng))) = NaN"
  by (simp add: getState_def getShockVelocity_time0 getShockTemperature_time0
      new_SupernovaModel_fields)

text \<open>
  C2, amended: at \<open>time = 0\<close> with positive energy and density the state query returns
  shock radius \<open>0\<close>; the velocity is the unguarded quotient \<open>0 / 0\<close>, that is \<open>NaN\<close>, and the
  temperature computed from it is \<open>NaN\<close>.
\<close>

theorem C2_time0:
  assumes "time m = Fin 0" and "energy m = Fin e" and "density m = Fin d" and "0 < e" and "0 < d"
  shows "st_radius (getState m) = Fin 0 \<and> st_velocity (getState m) = NaN
       \<and> st_temperature (getState m) = NaN"
  using assms
  by (simp add: getState_def getShockVelocity_time0 getShockTemperature_time0
      getShockRadius_nonneg_time)

text \<open>
  C2, amended, at the freshly constructed default model.
\<close>

theorem C2_time0_witness:
  "time (fst (new_SupernovaModel default_config unit_rng)) = Fin 0
   \<and> energy (fst (new_SupernovaModel default_config unit_rng)) = Fin (10 ^ 51)
   \<and> density (fst (new_SupernovaModel default_config unit_rng)) = Fin (1 / 10 ^ 24)
   \<and> st_radius (getState (fst (new_SupernovaModel default_config unit_rng))) = Fin 0
   \<and> st_velocity (getState (fst (new_SupernovaModel default_config unit_rng))) = NaN
   \<and> st_temperature (getState (fst (new_SupernovaModel default_config unit_rng))) = NaN"
  using C2_time0 [of "fst (new_SupernovaModel default_config unit_rng)" "10 ^ 51" "1 / 10 ^ 24"]
  by (simp add: new_SupernovaModel_fields default_config_def)

text \<open>
  C6: for fixed positive energy and density the shock radius is non-decreasing in time:
  for \<open>0 \<le> t1 \<le> t2\<close> the radius at \<open>t1\<close> is \<open><=\<close> the radius at \<open>t2\<close>.
\<close>

theorem C6_radius_monotone:
  assumes "energy m = Fin e" and "density m = Fin d" and "0 < e" and "0 < d"
    and "0 \<le> t1" and "t1 \<le> t2"
  shows "jle (getShockRadius (m\<lparr>time := Fin t1\<rparr>)) (getShockRadius (m\<lparr>time := Fin t2\<rparr>))"
proof -
  have "(t1 * 31560000) powr 0.4 \<le> (t2 * 31560000) powr 0.4"
    using assms(5,6) by (intro powr_mono2) simp_all
  then have "1.15 * (e / d) powr 0.2 * (t1 * 31560000) powr 0.4
      \<le> 1.15 * (e / d) powr 0.2 * (t2 * 31560000) powr 0.4"
    by (intro mult_left_mono) simp_all
  then show ?thesis
    using assms
    by (simp add: getShockRadius_nonneg_time[of _ e d] divide_right_mono)
qed

text \<open>
  C6 at the default energy and density, for the times 100 and 200.
\<close>

theorem C6_radius_monotone_witness:
  "energy (fst (new_SupernovaModel default_config half_rng)) = Fin (10 ^ 51)
   \<and> density (fst (new_SupernovaModel default_config half_rng)) = Fin (1 / 10 ^ 24)
   \<and> (0::real) < 10 ^ 51 \<and> (0::real) < 1 / 10 ^ 24 \<and> (0::real) \<le> 100 \<and> (100::real) \<le> 200
   \<and> jle (getShockRadius ((fst (new_SupernovaModel default_config half_rng))\<lparr>time := Fin 100\<rparr>))
          (getShockRadius ((fst (new_SupernovaModel default_config half_rng))\<lparr>time := Fin 200\<rparr>))"
  using C6_radius_monotone [of "fst (new_SupernovaModel default_config half_rng)" "10 ^ 51" "1 / 10 ^ 24" 100 200]
  by (simp add: new_SupernovaModel_fields default_config_def)

text \<open>
  C8: with \<open>energy = 1e51\<close> and \<open>density = 1e-24\<close>, after one step \<open>dt = 100\<close> from the
  constructed model, \<open>state().time\<close> is \<open>100\<close> and radius, velocity and temperature are
  strictly greater than \<open>0\<close>, whatever the species and the random values.
\<close>

theorem C8_first_step:
  "st_time (getState (fst (simulate
      \<lparr>cfg_energy = Some (Fin (10 ^ 51)), cfg_density = Some (Fin (1 / 10 ^ 24)),
       cfg_elements = es\<rparr> g [Fin 100]))) = Fin 100
   \<and> jlt (Fin 0) (st_radius (getState (fst (simulate
      \<lparr>cfg_energy = Some (Fin (10 ^ 51)), cfg_density = Some (Fin (1 / 10 ^ 24)),
       cfg_elements = es\<rparr> g [Fin 100]))))
   \<and> jlt (Fin 0) (st_velocity (getState (fst (simulate
      \<lparr>cfg_energy = Some (Fin (10 ^ 51)), cfg_density = Some (Fin (1 / 10 ^ 24)),
       cfg_elements = es\<rparr> g [Fin 100]))))
   \<and> jlt (Fin 0) (st_temperature (getState (fst (simulate
      \<lparr>cfg_energy = Some (Fin (10 ^ 51)), cfg_density = Some (Fin (1 / 10 ^ 24)),
       cfg_elements = es\<rparr> g [Fin 100]))))"
proof -
  define cfg where "cfg = \<lparr>cfg_energy = Some (Fin (10 ^ 51)), cfg_density = Some (Fin (1 / 10 ^ 24)),
                          cfg_elements = es\<rparr>"
  define m where "m = fst (simulate cfg g [Fin 100])"
  have sim: "m = fst (update (Fin 100) (fst (new_SupernovaModel cfg g)) (snd (new_SupernovaModel cfg g)))"
    by (simp add: simulate_def split_def Let_def m_def)
  have e: "energy m = Fin (10 ^ 51)" and d: "density m = Fin (1 / 10 ^ 24)" and t: "time m = Fin 100"
    by (simp_all add: sim update_fields new_SupernovaModel_fields cfg_def)
  have r: "jlt (Fin 0) (getShockRadius m)"
    by (simp add: getShockRadius_positive[OF e d t])
  have v: "jlt (Fin 0) (getShockVelocity m)"
    by (simp add: getShockVelocity_positive[OF e d t])
  obtain T where "0 < T" "getShockTemperature m = Fin T"
    using getShockTemperature_positive[OF e d t] by auto
  then have "jlt (Fin 0) (getShockTemperature m)" by simp
  with r v t show ?thesis
    unfolding cfg_def[symmetric] m_def[symmetric] by (simp add: getState_def)
qed

text \<open>
  C8 with the default species and a fixed state of the random sources.
\<close>

theorem C8_first_step_witness:
  "st_time (getState (fst (simulate
      \<lparr>cfg_energy = Some (Fin (10 ^ 51)), cfg_density = Some (Fin (1 / 10 ^ 24)),
       cfg_elements = None\<rparr> half_rng [Fin 100]))) = Fin 100
   \<and> jlt (Fin 0) (st_radius (getState (fst (simulate
      \<lparr>cfg_energy = Some (Fin (10 ^ 51)), cfg_density = Some (Fin (1 / 10 ^ 24)),
       cfg_elements = None\<rparr> half_rng [Fin 100]))))
   \<and> jlt (Fin 0) (st_velocity (getState (fst (simulate
      \<lparr>cfg_energy = Some (Fin (10 ^ 51)), cfg_density = Some (Fin (1 / 10 ^ 24)),
       cfg_elements = None\<rparr> half_rng [Fin 100]))))
   \<and> jlt (Fin 0) (st_temperature (getState (fst (simulate
      \<lparr>cfg_energy = Some (Fin (10 ^ 51)), cfg_density = Some (Fin (1 / 10 ^ 24)),
       cfg_elements = None\<rparr> half_rng [Fin 100]))))"
  by (rule C8_first_step)


section \<open>The aggregator\<close>

subsection \<open>The bounded time series\<close>

lemma updateTimeSeries_fields:
  "binConfig (updateTimeSeries dm m) = binConfig dm"
  "d_particles (data (updateTimeSeries dm m)) = d_particles (data dm)"
  "sample_of (updateTimeSeries dm m) = sample_of dm"
  by (simp_all add: updateTimeSeries_def sample_of_def Let_def fun_eq_iff)

lemma updateTimeSeries_series:
  "timeSeries (data (updateTimeSeries dm m)) =
     (if maxHistory (binConfig dm) < Suc (length (timeSeries (data dm)))
      then tl (timeSeries (data dm) @ [sample_of dm m])
      else timeSeries (data dm) @ [sample_of dm m])"
  by (simp add: updateTimeSeries_def Let_def)

lemma push_shift_window:
  assumes "length ts \<le> cap"
  shows "(if cap < Suc (length ts) then tl (ts @ [s]) else ts @ [s]) =
           drop (Suc (length ts) - cap) (ts @ [s])"
proof (cases "cap < Suc (length ts)")
  case True
  with assms have "Suc (length ts) - cap = Suc 0" by simp
  then show ?thesis using True by (simp add: drop_Suc del: drop_append)
next
  case False
  then show ?thesis by simp
qed

lemma drop_window_append:
  assumes "j \<le> length xs"
  shows "drop a (drop j xs @ ys) = drop (a + j) (xs @ ys)"
proof -
  have "drop j xs @ ys = drop j (xs @ ys)" using assms by simp
  then show ?thesis by (simp only: drop_drop)
qed

subsection \<open>The angular histogram\<close>

lemma angular_counts:
  "map (map_option ad_count) (map (angular_bin bins) (enumerate n hist)) = hist"
proof (induction hist arbitrary: n)
  case Nil
  then show ?case by simp
next
  case (Cons slot hist)
  then show ?case by (cases slot) (simp_all add: angular_bin_def)
qed

lemma updateAngularDistribution_counts:
  "map (map_option ad_count) (angularDist (data (updateAngularDistribution dm))) =
     angular_forEach (angular (binConfig dm)) (d_particles (data dm))
       (replicate (angular (binConfig dm)) (Some (Fin 0)))"
  using angular_counts by (simp add: updateAngularDistribution_def Let_def del: map_map)

subsection \<open>The radial histogram\<close>

lemma sum_counts_Fin: "sum_counts (map Fin cs) = Fin (sum_list cs)"
  by (induction cs) simp_all

lemma sum_list_bump:
  fixes cs :: "real list"
  shows "i < length cs \<Longrightarrow> sum_list (cs[i := cs ! i + 1]) = sum_list cs + 1"
proof (induction cs arbitrary: i)
  case Nil
  then show ?case by simp
next
  case (Cons c cs)
  then show ?case by (cases i) simp_all
qed

lemma radial_counts:
  "map rd_count (map (radial_bin bins maxRadius) (enumerate n hist)) = map hb_count hist"
  by (induction hist arbitrary: n) (simp_all add: radial_bin_def)

lemma Math_pow_2_Fin: "Math_pow (Fin a) 2 = Fin (a\<^sup>2)"
proof -
  have "a < 0 \<Longrightarrow> a powi 2 = a\<^sup>2" by simp
  moreover have "0 < a \<Longrightarrow> a powr 2 = a\<^sup>2" by simp
  ultimately show ?thesis by (cases "a = 0") auto
qed

lemma radius3_Fin:
  assumes "p_x p = Fin a" "p_y p = Fin b" "p_z p = Fin c"
  shows "radius3 p = Fin (sqrt (a\<^sup>2 + b\<^sup>2 + c\<^sup>2))"
proof -
  have "Math_pow (or_default (Some (Fin c)) (Fin 0)) 2 = Fin (c\<^sup>2)"
    by (cases "c = 0") (simp_all add: Math_pow_2_Fin del: Math_pow.simps)
  moreover have "\<not> a\<^sup>2 + b\<^sup>2 + c\<^sup>2 < 0"
    by (simp add: not_less)
  ultimately show ?thesis
    using assms by (simp add: radius3_def Math_pow_2_Fin del: Math_pow.simps)
qed

lemma radius3_finite:
  assumes "isFin (p_x p) \<and> isFin (p_y p) \<and> isFin (p_z p)"
  shows "\<exists>r. 0 \<le> r \<and> radius3 p = Fin r"
proof -
  from assms obtain a b c where "p_x p = Fin a" "p_y p = Fin b" "p_z p = Fin c"
    by (auto simp: isFin_iff)
  then have "radius3 p = Fin (sqrt (a\<^sup>2 + b\<^sup>2 + c\<^sup>2))" by (rule radius3_Fin)
  then show ?thesis by auto
qed

lemma radial_binIdx_Fin:
  assumes "radius3 p = Fin r" "0 < R" "0 < bins"
  shows "radial_binIdx bins (Fin R) p =
           Fin (min (real bins - 1) (of_int \<lfloor>r / (R / real bins)\<rfloor>))"
  using assms by (simp add: radial_binIdx_def min_def)

lemma radial_binIdx_index:
  assumes "radius3 p = Fin r" "0 \<le> r" "0 < R" "0 < bins"
  shows "\<exists>i. i < bins \<and> array_index (radial_binIdx bins (Fin R) p) = Some i"
proof -
  define k where "k = \<lfloor>r / (R / real bins)\<rfloor>"
  have k0: "0 \<le> k" using assms by (simp add: k_def)
  have "min (real bins - 1) (of_int k) = of_int (min (int bins - 1) k)"
    by (simp add: min_def)
  then have idx: "radial_binIdx bins (Fin R) p = Fin (of_int (min (int bins - 1) k))"
    using radial_binIdx_Fin[OF assms(1,3,4)] by (simp add: k_def)
  have "0 \<le> min (int bins - 1) k" using k0 assms(4) by simp
  then have "array_index (radial_binIdx bins (Fin R) p) = Some (nat (min (int bins - 1) k))"
    by (simp add: idx)
  moreover have "nat (min (int bins - 1) k) < bins" using assms(4) by simp
  ultimately show ?thesis by blast
qed

lemma radial_binIdx_last:
  assumes "radius3 p = Fin r" "R \<le> r" "0 < R" "0 < bins"
  shows "radial_binIdx bins (Fin R) p = Fin (real bins - 1)"
proof -
  have "real bins \<le> r / (R / real bins)"
    using assms by (simp add: field_simps)
  then have "int bins \<le> \<lfloor>r / (R / real bins)\<rfloor>"
    by (simp add: le_floor_iff)
  then have "real bins \<le> of_int \<lfloor>r / (R / real bins)\<rfloor>"
    by (metis of_int_le_iff of_int_of_nat_eq)
  then show ?thesis
    using radial_binIdx_Fin[OF assms(1,3,4)] by (simp add: min_def)
qed

lemma radial_count_ok:
  assumes "radius3 p = Fin r" "0 \<le> r" "0 < R" "0 < bins" "length hist = bins"
    and "map hb_count hist = map Fin cs"
  shows "\<exists>hist' cs'. radial_count bins (Fin R) hist p = Inr hist' \<and> length hist' = bins
           \<and> map hb_count hist' = map Fin cs' \<and> sum_list cs' = sum_list cs + 1"
proof -
  obtain i where i: "i < bins" "array_index (radial_binIdx bins (Fin R) p) = Some i"
    using radial_binIdx_index[OF assms(1-4)] by blast
  have len: "length cs = bins" using assms(5,6) by (metis length_map)
  have ci: "hb_count (hist ! i) = Fin (cs ! i)"
    using assms(5,6) i(1) len by (metis nth_map)
  define h' where "h' = hist[i := \<lparr>hb_count = jadd (hb_count (hist ! i)) (Fin 1),
                               hb_mass = jadd (hb_mass (hist ! i)) (p_mass p)\<rparr>]"
  have "radial_count bins (Fin R) hist p = Inr h'"
    using i assms(5) by (simp add: radial_count_def h'_def)
  moreover have "length h' = bins" using assms(5) by (simp add: h'_def)
  moreover have "map hb_count h' = map Fin (cs[i := cs ! i + 1])"
    by (simp add: h'_def map_update assms(6) ci)
  moreover have "sum_list (cs[i := cs ! i + 1]) = sum_list cs + 1"
    using i(1) len by (simp add: sum_list_bump)
  ultimately show ?thesis by blast
qed

lemma radial_forEach_ok:
  assumes "0 < R" "0 < bins"
    and "list_all (\<lambda>p. isFin (p_x p) \<and> isFin (p_y p) \<and> isFin (p_z p)) ps"
    and "length hist = bins" "map hb_count hist = map Fin cs"
  shows "\<exists>hist' cs'. radial_forEach bins (Fin R) ps hist = Inr hist' \<and> length hist' = bins
           \<and> map hb_count hist' = map Fin cs' \<and> sum_list cs' = sum_list cs + real (length ps)"
  using assms(3-5)
proof (induction ps arbitrary: hist cs)
  case Nil
  then show ?case by auto
next
  case (Cons p ps)
  from Cons.prems(1) obtain r where r: "0 \<le> r" "radius3 p = Fin r"
    using radius3_finite[of p] by auto
  obtain h1 c1 where s: "radial_count bins (Fin R) hist p = Inr h1" "length h1 = bins"
      "map hb_count h1 = map Fin c1" "sum_list c1 = sum_list cs + 1"
    using radial_count_ok[OF r(2) r(1) assms(1,2) Cons.prems(2,3)] by blast
  from Cons.prems(1) have rest: "list_all (\<lambda>p. isFin (p_x p) \<and> isFin (p_y p) \<and> isFin (p_z p)) ps"
    by simp
  obtain h2 c2 where t: "radial_forEach bins (Fin R) ps h1 = Inr h2" "length h2 = bins"
      "map hb_count h2 = map Fin c2" "sum_list c2 = sum_list c1 + real (length ps)"
    using Cons.IH[OF rest s(2,3)] by blast
  have "radial_forEach bins (Fin R) (p # ps) hist = Inr h2"
    by (simp add: s(1) t(1))
  moreover have "sum_list c2 = sum_list cs + real (length (p # ps))"
    by (simp add: t(4) s(4))
  ultimately show ?case using t(2,3) by blast
qed

lemma updateRadialDistribution_ok:
  assumes "getShockRadius m = Fin R" "0 < R" "0 < radial (binConfig dm)"
    and "list_all (\<lambda>p. isFin (p_x p) \<and> isFin (p_y p) \<and> isFin (p_z p)) (d_particles (data dm))"
  shows "\<exists>dm'. updateRadialDistribution dm m = Inr dm'
           \<and> length (radialDist (data dm')) = radial (binConfig dm)
           \<and> sum_counts (map rd_count (radialDist (data dm'))) =
               Fin (real (length (d_particles (data dm))))
           \<and> d_particles (data dm') = d_particles (data dm) \<and> binConfig dm' = binConfig dm
           \<and> timeSeries (data dm') = timeSeries (data dm)"
proof -
  define bins where "bins = radial (binConfig dm)"
  define hist0 where "hist0 = replicate bins \<lparr>hb_count = Fin 0, hb_mass = Fin 0\<rparr>"
  have h0: "length hist0 = bins" "map hb_count hist0 = map Fin (replicate bins 0)"
    by (simp_all add: hist0_def)
  obtain hist cs where h: "radial_forEach bins (Fin R) (d_particles (data dm)) hist0 = Inr hist"
      "length hist = bins" "map hb_count hist = map Fin cs"
      "sum_list cs = sum_list (replicate bins 0) + real (length (d_particles (data dm)))"
    using radial_forEach_ok[OF assms(2) assms(3)[folded bins_def] assms(4) h0] by blast
  have z: "sum_list (replicate bins (0::real)) = 0"
    by (simp add: sum_list_replicate)
  define dm' where "dm' = dm\<lparr>data := (data dm)\<lparr>radialDist :=
                    map (radial_bin bins (Fin R)) (enumerate 0 hist)\<rparr>\<rparr>"
  have "updateRadialDistribution dm m = Inr dm'"
    using h(1) by (simp add: updateRadialDistribution_def Let_def assms(1) bins_def hist0_def dm'_def)
  moreover have "length (radialDist (data dm')) = radial (binConfig dm)"
    by (simp add: dm'_def h(2) bins_def)
  moreover have "sum_counts (map rd_count (radialDist (data dm'))) =
               Fin (real (length (d_particles (data dm))))"
    using radial_counts[of bins "Fin R" 0 hist]
    by (simp add: dm'_def h(3,4) z sum_counts_Fin del: map_map)
  ultimately show ?thesis by (auto simp: dm'_def)
qed


section \<open>The particle invariant\<close>

lemma positive_iff: "positive v \<longleftrightarrow> (\<exists>r. v = Fin r \<and> 0 < r)"
  by (cases v) auto

lemma particle_okE:
  assumes "particle_ok p"
  obtains x f th D a b c where "p_xi p = Fin x" "0 \<le> x" "x \<le> 1" "p_phi p = Fin f" "0 \<le> f" "f \<le> pi"
    "p_theta p = Fin th" "p_diffusionCoeff p = Fin D" "0 \<le> D"
    "p_x p = Fin a" "p_y p = Fin b" "p_z p = Fin c"
proof -
  from assms obtain x f where 1: "p_xi p = Fin x" "0 \<le> x" "x \<le> 1" "p_phi p = Fin f" "0 \<le> f" "f \<le> pi"
    unfolding particle_ok_def between_iff by blast
  from assms obtain th D a b c where 2: "p_theta p = Fin th" "p_diffusionCoeff p = Fin D"
    "p_x p = Fin a" "p_y p = Fin b" "p_z p = Fin c"
    unfolding particle_ok_def isFin_iff by blast
  from assms 2(2) have "0 \<le> D" by (simp add: particle_ok_def)
  with 1 2 that show thesis by blast
qed

lemma rng_ok_same:
  assumes "uniform g' = uniform g" "gauss g' = gauss g"
  shows "rng_ok g' = rng_ok g"
  by (simp add: rng_ok_def assms)

lemma rng_ok_uniform: "rng_ok g \<Longrightarrow> 0 \<le> uniform g k \<and> uniform g k < 1"
  by (simp add: rng_ok_def)

lemma rng_ok_gauss: "rng_ok g \<Longrightarrow> \<bar>gauss g k\<bar> \<le> 100"
  by (simp add: rng_ok_def)

lemma newParticle_rng:
  "uniform (snd (newParticle elem pid g)) = uniform g"
  "gauss (snd (newParticle elem pid g)) = gauss g"
  by (simp_all add: newParticle_def Let_def split_def Math_random_def d3_randomNormal_def)

lemma update_particle_rng:
  "uniform (snd (update_particle m dt R Rc v T p g)) = uniform g"
  "gauss (snd (update_particle m dt R Rc v T p g)) = gauss g"
  by (simp_all add: update_particle_def Let_def split_def Math_random_def)

lemma newParticle_ok:
  assumes "rng_ok g" "0 < el_A elem" "0 \<le> el_D0 elem"
  shows "particle_ok (fst (newParticle elem pid g))"
proof -
  define s where "s = gauss g (used_gauss g)"
  define u where "u = uniform g (used_uniform g)"
  have s: "\<bar>s\<bar> \<le> 100" using assms(1) by (simp add: s_def rng_ok_gauss)
  have u: "0 \<le> u" "u < 1" using rng_ok_uniform[OF assms(1)] by (simp_all add: u_def)
  have xi: "p_xi (fst (newParticle elem pid g)) = Fin (\<bar>0.1 * s\<bar> * 0.1)"
    by (simp add: newParticle_def Let_def split_def Math_random_def d3_randomNormal_def s_def)
  have "\<bar>0.1 * s\<bar> * 0.1 \<le> 1" using s by (simp add: abs_mult)
  then have 1: "between 0 1 (p_xi (fst (newParticle elem pid g)))"
    by (simp add: xi)
  have phi: "p_phi (fst (newParticle elem pid g)) = Fin (arccos (u * 2 - 1))"
    using u by (simp add: newParticle_def Let_def split_def Math_random_def d3_randomNormal_def u_def)
  have "0 \<le> arccos (u * 2 - 1)" "arccos (u * 2 - 1) \<le> pi"
    using u by (simp_all add: arccos_lbound arccos_ubound)
  then have 2: "between 0 pi (p_phi (fst (newParticle elem pid g)))"
    by (simp add: phi)
  have 3: "isFin (p_theta (fst (newParticle elem pid g)))"
    by (simp add: newParticle_def Let_def split_def Math_random_def d3_randomNormal_def Math_PI_def)
  have D: "p_diffusionCoeff (fst (newParticle elem pid g)) = Fin (el_D0 elem / sqrt (el_A elem))"
    using assms(2) by (simp add: newParticle_def Let_def split_def)
  have 4: "p_x (fst (newParticle elem pid g)) = Fin 0" "p_y (fst (newParticle elem pid g)) = Fin 0"
    "p_z (fst (newParticle elem pid g)) = Fin 0"
    by (simp_all add: newParticle_def Let_def split_def)
  show ?thesis
    using 1 2 3 assms(2,3) by (simp add: particle_ok_def D 4)
qed


lemma velocityProfile_Fin:
  "velocityProfile (Fin x) =
     Fin (if x < 0.8 then 1 - 1.2 * x + 0.8 * x * x else 0.5 * (1 - x) / (1 - 0.8))"
  by (simp add: velocityProfile_def)

lemma reflect_phi:
  assumes "0 \<le> f" "f \<le> pi" "- 1 \<le> d" "d \<le> 1"
  shows "between 0 pi
           (let phi1 = Fin (f + d);
                phi2 = (if jlt phi1 (Fin 0) then jneg phi1 else phi1)
            in if jgt phi2 Math_PI then jsub (jmul (Fin 2) Math_PI) phi2 else phi2)"
  using assms pi_ge_two by (auto simp add: Let_def jgt_def Math_PI_def)

lemma update_particle_shape:
  "p_x (fst (update_particle m dt R Rc v T p g)) =
     jmul (jmul (jmul (p_xi (fst (update_particle m dt R Rc v T p g))) R)
                (Math_sin (p_phi (fst (update_particle m dt R Rc v T p g)))))
          (Math_cos (p_theta (fst (update_particle m dt R Rc v T p g))))"
  "p_y (fst (update_particle m dt R Rc v T p g)) =
     jmul (jmul (jmul (p_xi (fst (update_particle m dt R Rc v T p g))) R)
                (Math_sin (p_phi (fst (update_particle m dt R Rc v T p g)))))
          (Math_sin (p_theta (fst (update_particle m dt R Rc v T p g))))"
  "p_z (fst (update_particle m dt R Rc v T p g)) =
     jmul (jmul (p_xi (fst (update_particle m dt R Rc v T p g))) R)
          (Math_cos (p_phi (fst (update_particle m dt R Rc v T p g))))"
  "p_diffusionCoeff (fst (update_particle m dt R Rc v T p g)) = p_diffusionCoeff p"
  by (simp_all add: update_particle_def Let_def split_def)

lemma update_particle_xi:
  assumes g: "rng_ok g" and p: "particle_ok p" and h: "0 < h" and R: "0 < R"
  shows "between 0 1 (p_xi (fst (update_particle m (Fin h) (Fin R)
           (Fin (R * 3086000000000000000)) (Fin v) T p g)))"
proof -
  from p obtain x D where q: "p_xi p = Fin x" "p_diffusionCoeff p = Fin D" "0 \<le> D"
    by (auto elim: particle_okE)
  have u: "0 \<le> uniform g (used_uniform g)" "uniform g (used_uniform g) \<le> 1"
    using rng_ok_uniform[OF g, of "used_uniform g"] by simp_all
  have nn: "\<not> D * h < 0" using q(3) h by (simp add: not_less)
  show ?thesis
    using R u nn
    by (simp add: update_particle_def Let_def split_def Math_random_def q velocityProfile_Fin
        clamp_between del: Math_min.simps Math_max.simps)
qed

lemma update_particle_phi:
  assumes g: "rng_ok g" and p: "particle_ok p"
  shows "between 0 pi (p_phi (fst (update_particle m dt R Rc v T p g)))"
proof -
  from p obtain f where q: "p_phi p = Fin f" "0 \<le> f" "f \<le> pi"
    by (auto elim: particle_okE)
  define d where "d = (uniform g (Suc (Suc (Suc (used_uniform g)))) - 0.5) * 0.15"
  have d: "- 1 \<le> d" "d \<le> 1"
    using rng_ok_uniform[OF g, of "Suc (Suc (Suc (used_uniform g)))"] by (simp_all add: d_def)
  have "p_phi (fst (update_particle m dt R Rc v T p g))
          = (let phi1 = Fin (f + d);
                phi2 = (if jlt phi1 (Fin 0) then jneg phi1 else phi1)
            in if jgt phi2 Math_PI then jsub (jmul (Fin 2) Math_PI) phi2 else phi2)"
    by (simp add: update_particle_def Let_def split_def Math_random_def q d_def)
  then show ?thesis
    using reflect_phi[OF q(2,3) d] by simp
qed

lemma update_particle_theta:
  assumes "particle_ok p"
  shows "isFin (p_theta (fst (update_particle m dt R Rc v T p g)))"
proof -
  from assms obtain th where "p_theta p = Fin th"
    by (auto elim: particle_okE)
  then show ?thesis
    by (simp add: update_particle_def Let_def split_def Math_random_def)
qed

lemma update_particle_ok:
  assumes g: "rng_ok g" and p: "particle_ok p" and h: "0 < h" and R: "0 < R"
  shows "particle_ok
           (fst (update_particle m (Fin h) (Fin R) (Fin (R * 3086000000000000000)) (Fin v) T p g))"
proof -
  let ?p = "fst (update_particle m (Fin h) (Fin R) (Fin (R * 3086000000000000000)) (Fin v) T p g)"
  have 1: "between 0 1 (p_xi ?p)" by (rule update_particle_xi[OF assms])
  have 2: "between 0 pi (p_phi ?p)" by (rule update_particle_phi[OF g p])
  have 3: "isFin (p_theta ?p)" by (rule update_particle_theta[OF p])
  from 1 2 3 obtain x f th where e: "p_xi ?p = Fin x" "p_phi ?p = Fin f" "p_theta ?p = Fin th"
    by (auto simp: between_iff isFin_iff)
  have 4: "isFin (p_x ?p)" "isFin (p_y ?p)" "isFin (p_z ?p)"
    by (simp_all add: update_particle_shape e)
  from p have 5: "jle (Fin 0) (p_diffusionCoeff ?p)" "isFin (p_diffusionCoeff ?p)"
    by (simp_all add: update_particle_shape particle_ok_def)
  show ?thesis
    using 1 2 3 4 5 by (simp add: particle_ok_def)
qed

lemma forEach_rng_ok:
  assumes step: "\<And>p g. P p \<Longrightarrow> rng_ok g \<Longrightarrow> P (fst (f p g)) \<and> rng_ok (snd (f p g))"
    and "list_all P ps" "rng_ok g"
  shows "list_all P (fst (forEach_rng f ps g)) \<and> rng_ok (snd (forEach_rng f ps g))"
  using assms(2,3)
proof (induction ps arbitrary: g)
  case Nil
  then show ?case by simp
next
  case (Cons p ps)
  from Cons.prems have 1: "P (fst (f p g))" "rng_ok (snd (f p g))" "list_all P ps"
    using step[of p g] by simp_all
  from Cons.IH[OF 1(3,2)] 1(1) show ?case
    by (simp add: split_def Let_def)
qed

lemma forEach_rng_length: "length (fst (forEach_rng f ps g)) = length ps"
  by (induction ps arbitrary: g) (simp_all add: split_def Let_def)


lemma particle_loop_ok:
  assumes "element_ok elem"
  shows "rng_ok g \<Longrightarrow> list_all particle_ok (fst (particle_loop elem n pid g))
           \<and> rng_ok (snd (snd (particle_loop elem n pid g)))"
proof (induction n arbitrary: pid g)
  case 0
  then show ?case by simp
next
  case (Suc n)
  have 1: "particle_ok (fst (newParticle elem pid g))"
    using newParticle_ok[OF Suc.prems] assms by (simp add: element_ok_def)
  have 2: "rng_ok (snd (newParticle elem pid g))"
    using Suc.prems by (simp add: rng_ok_same[OF newParticle_rng])
  from Suc.IH[OF 2] 1 show ?case
    by (simp add: split_def Let_def)
qed

lemma elements_forEach_ok:
  "list_all element_ok es \<Longrightarrow> rng_ok g \<Longrightarrow>
     list_all particle_ok (fst (elements_forEach es pid g))
     \<and> rng_ok (snd (snd (elements_forEach es pid g)))"
proof (induction es arbitrary: pid g)
  case Nil
  then show ?case by simp
next
  case (Cons elem es)
  let ?loop = "particle_loop elem (nat \<lfloor>2000 * el_massFrac elem\<rfloor>) pid g"
  from Cons.prems have el: "element_ok elem" "list_all element_ok es" by simp_all
  from particle_loop_ok[OF el(1) Cons.prems(2)]
  have 1: "list_all particle_ok (fst ?loop)" "rng_ok (snd (snd ?loop))" by blast+
  from Cons.IH[OF el(2) 1(2)] 1(1) show ?case
    by (simp add: split_def Let_def)
qed

lemma default_elements_ok: "list_all element_ok default_elements"
  by (simp add: default_elements_def element_ok_def)

lemma or_default_positive:
  "(case v of None \<Rightarrow> True | Some w \<Rightarrow> positive w) \<Longrightarrow> positive d \<Longrightarrow> positive (or_default v d)"
  by (cases v) (auto simp: positive_iff)

lemma new_SupernovaModel_ok:
  assumes "config_ok cfg" "rng_ok g"
  shows "model_ok (fst (new_SupernovaModel cfg g)) \<and> rng_ok (snd (new_SupernovaModel cfg g))"
proof -
  let ?es = "case cfg_elements cfg of None \<Rightarrow> default_elements | Some es \<Rightarrow> es"
  from assms(1) have es: "list_all element_ok ?es" by (simp add: config_ok_def)
  from elements_forEach_ok[OF es assms(2)]
  have 1: "list_all particle_ok (particles (fst (new_SupernovaModel cfg g)))"
    and 2: "rng_ok (snd (new_SupernovaModel cfg g))"
    by (simp_all add: new_SupernovaModel_def initializeParticles_def split_def Let_def)
  have 3: "positive (energy (fst (new_SupernovaModel cfg g)))"
    "positive (density (fst (new_SupernovaModel cfg g)))"
    using assms(1) by (simp_all add: new_SupernovaModel_fields config_ok_def or_default_positive)
  show ?thesis
    using 1 2 3 by (simp add: model_ok_def new_SupernovaModel_fields)
qed

lemma update_ok:
  assumes "model_ok m" "rng_ok g" "positive dt"
  shows "model_ok (fst (update dt m g)) \<and> rng_ok (snd (update dt m g))
       \<and> positive (time (fst (update dt m g)))"
proof -
  from assms(1,3) obtain e d t h where v: "energy m = Fin e" "0 < e" "density m = Fin d" "0 < d"
      "time m = Fin t" "0 \<le> t" "dt = Fin h" "0 < h"
    by (auto simp: model_ok_def positive_iff isFin_iff)
  define m1 where "m1 = m\<lparr>time := jadd (time m) dt\<rparr>"
  have m1: "energy m1 = Fin e" "density m1 = Fin d" "time m1 = Fin (t + h)" "0 < t + h"
    using v by (simp_all add: m1_def)
  define R where "R = 1.15 * (e / d) powr 0.2 * ((t + h) * 31560000) powr 0.4 / 3086000000000000000"
  have R: "getShockRadius m1 = Fin R"
    using getShockRadius_positive[OF m1(1,2,3) v(2,4) m1(4)] by (simp add: R_def)
  have Rpos: "0 < R" using v(2,4) m1(4) by (simp add: R_def)
  obtain w where w: "getShockVelocity m1 = Fin w"
    using getShockVelocity_gt0[OF m1(1,2,3) v(2,4) m1(4)] by blast
  let ?f = "update_particle m1 (Fin h) (Fin R) (Fin (R * 3086000000000000000)) (Fin w)
              (getShockTemperature m1)"
  have step: "\<And>p g. particle_ok p \<Longrightarrow> rng_ok g \<Longrightarrow>
                particle_ok (fst (?f p g)) \<and> rng_ok (snd (?f p g))"
    using update_particle_ok[OF _ _ v(8) Rpos]
    by (simp add: rng_ok_same[OF update_particle_rng])
  from assms(1) have ps: "list_all particle_ok (particles m)" by (simp add: model_ok_def)
  have upd: "update dt m g = (m1\<lparr>particles := fst (forEach_rng ?f (particles m) g)\<rparr>,
                              snd (forEach_rng ?f (particles m) g))"
  proof -
    have "update dt m g =
        (m1\<lparr>particles := fst (forEach_rng (update_particle m1 dt (getShockRadius m1)
             (jmul (getShockRadius m1) (Fin 3086000000000000000)) (getShockVelocity m1)
             (getShockTemperature m1)) (particles m1) g)\<rparr>,
         snd (forEach_rng (update_particle m1 dt (getShockRadius m1)
             (jmul (getShockRadius m1) (Fin 3086000000000000000)) (getShockVelocity m1)
             (getShockTemperature m1)) (particles m1) g))"
      unfolding m1_def by (simp add: update_def Let_def split_def)
    moreover have "particles m1 = particles m" by (simp add: m1_def)
    ultimately show ?thesis by (simp add: R w v(7))
  qed
  from forEach_rng_ok[of particle_ok ?f, OF step ps assms(2)]
  show ?thesis
    using m1 v(2,4) by (simp add: upd model_ok_def)
qed

lemma run_updates_ok:
  "model_ok m \<Longrightarrow> rng_ok g \<Longrightarrow> list_all positive dts \<Longrightarrow>
     model_ok (fst (run_updates dts m g)) \<and> rng_ok (snd (run_updates dts m g))
     \<and> (positive (time m) \<or> dts \<noteq> [] \<longrightarrow> positive (time (fst (run_updates dts m g))))"
proof (induction dts arbitrary: m g)
  case Nil
  then show ?case by simp
next
  case (Cons dt dts)
  from Cons.prems have 1: "positive dt" "list_all positive dts" by simp_all
  from update_ok[OF Cons.prems(1,2) 1(1)]
  have 2: "model_ok (fst (update dt m g))" "rng_ok (snd (update dt m g))"
    "positive (time (fst (update dt m g)))" by blast+
  from Cons.IH[OF 2(1,2) 1(2)] 2(3) show ?case
    by (simp add: split_def Let_def)
qed

lemma simulate_ok:
  assumes "config_ok cfg" "rng_ok g" "list_all positive dts"
  shows "model_ok (fst (simulate cfg g dts))"
    and "dts \<noteq> [] \<Longrightarrow> positive (time (fst (simulate cfg g dts)))"
proof -
  from new_SupernovaModel_ok[OF assms(1,2)]
  have 1: "model_ok (fst (new_SupernovaModel cfg g))" "rng_ok (snd (new_SupernovaModel cfg g))"
    by blast+
  from run_updates_ok[OF 1 assms(3)]
  show "model_ok (fst (simulate cfg g dts))"
    and "dts \<noteq> [] \<Longrightarrow> positive (time (fst (simulate cfg g dts)))"
    by (simp_all add: simulate_def split_def Let_def)
qed


lemma half_rng_ok: "rng_ok half_rng"
  by (simp add: rng_ok_def half_rng_def)

lemma default_config_ok: "config_ok default_config"
  by (simp add: config_ok_def default_config_def default_elements_ok)

section \<open>Ingest, runs and random values\<close>

subsection \<open>Ingest before and after the first step\<close>

lemma updateAngularDistribution_fields:
  "radialDist (data (updateAngularDistribution dm)) = radialDist (data dm)"
  "timeSeries (data (updateAngularDistribution dm)) = timeSeries (data dm)"
  "d_particles (data (updateAngularDistribution dm)) = d_particles (data dm)"
  "binConfig (updateAngularDistribution dm) = binConfig dm"
  by (simp_all add: updateAngularDistribution_def Let_def)

lemma updateTimeSeries_radialDist:
  "radialDist (data (updateTimeSeries dm m)) = radialDist (data dm)"
  by (simp add: updateTimeSeries_def Let_def)

lemma elements_forEach_first:
  assumes "0 < nat \<lfloor>2000 * el_massFrac elem\<rfloor>"
  shows "\<exists>ps. fst (elements_forEach (elem # es) pid g) = fst (newParticle elem pid g) # ps"
proof -
  from assms obtain n where "nat \<lfloor>2000 * el_massFrac elem\<rfloor> = Suc n"
    by (auto simp: gr0_conv_Suc)
  then show ?thesis by (simp add: split_def Let_def)
qed

lemma default_particles_first:
  "\<exists>ps. particles (fst (new_SupernovaModel default_config g)) =
          fst (newParticle (hd default_elements) 0 g) # ps"
proof -
  have "0 < nat \<lfloor>2000 * el_massFrac (hd default_elements)\<rfloor>"
    by (simp add: default_elements_def)
  from elements_forEach_first[OF this, of "tl default_elements" 0 g]
  show ?thesis
    by (simp add: new_SupernovaModel_particles default_config_def default_elements_def)
qed

lemma newParticle_origin:
  "p_x (fst (newParticle elem pid g)) = Fin 0"
  "p_y (fst (newParticle elem pid g)) = Fin 0"
  "p_z (fst (newParticle elem pid g)) = Fin 0"
  by (simp_all add: newParticle_def Let_def split_def)

lemma radial_count_origin_time0:
  assumes "p_x p = Fin 0" "p_y p = Fin 0" "p_z p = Fin 0"
  shows "radial_count bins (Fin 0) hist p = Inl TypeError"
proof -
  have "radius3 p = Fin 0"
    using radius3_Fin[OF assms] by simp
  then have "radial_binIdx bins (Fin 0) p = NaN"
    by (simp add: radial_binIdx_def)
  then show ?thesis by (simp add: radial_count_def)
qed

lemma ingest_ready_after_steps:
  assumes "config_ok cfg" "rng_ok g" "list_all positive dts" "dts \<noteq> []"
  shows "(\<exists>R. 0 < R \<and> getShockRadius (fst (simulate cfg g dts)) = Fin R)
       \<and> list_all (\<lambda>p. isFin (p_x p) \<and> isFin (p_y p) \<and> isFin (p_z p))
            (getParticles (fst (simulate cfg g dts)))"
proof -
  let ?m = "fst (simulate cfg g dts)"
  have ok: "model_ok ?m" by (rule simulate_ok(1)[OF assms(1-3)])
  have "positive (time ?m)" by (rule simulate_ok(2)[OF assms])
  with ok obtain e d t where v: "energy ?m = Fin e" "density ?m = Fin d" "time ?m = Fin t"
      "0 < e" "0 < d" "0 < t"
    by (auto simp: model_ok_def positive_iff)
  have "0 < 1.15 * (e / d) powr 0.2 * (t * 31560000) powr 0.4 / 3086000000000000000"
    using v(4-6) by simp
  then have "\<exists>R. 0 < R \<and> getShockRadius ?m = Fin R"
    using getShockRadius_positive[OF v] by blast
  moreover from ok have "list_all particle_ok (getParticles ?m)"
    by (simp add: model_ok_def getParticles_def)
  then have "list_all (\<lambda>p. isFin (p_x p) \<and> isFin (p_y p) \<and> isFin (p_z p)) (getParticles ?m)"
    by (rule list.pred_mono_strong) (simp add: particle_ok_def)
  ultimately show ?thesis by blast
qed

text \<open>
  C5, as stated, holds on every ingest. An ingest before the first step does not
  produce a histogram: the shock radius is \<open>0\<close>, every particle is at the origin, so
  \<open>r / maxRadius\<close> is \<open>0 / 0 = NaN\<close>, \<open>Math.min(49, NaN)\<close> is \<open>NaN\<close>, \<open>hist[NaN]\<close> is \<open>undefined\<close>
  and reading its \<open>count\<close> raises \<open>TypeError\<close>.
\<close>

theorem C5_counterexample:
  "getShockRadius (fst (new_SupernovaModel default_config half_rng)) = Fin 0
   \<and> length (getParticles (fst (new_SupernovaModel default_config half_rng))) = 2000
   \<and> DataManager_update new_DataManager (fst (new_SupernovaModel default_config half_rng)) =
       Inl TypeError"
proof -
  let ?m = "fst (new_SupernovaModel default_config half_rng)"
  have f: "energy ?m = Fin (10 ^ 51)" "density ?m = Fin (1 / 10 ^ 24)" "time ?m = Fin 0"
    by (simp_all add: new_SupernovaModel_fields default_config_def)
  have R: "getShockRadius ?m = Fin 0"
    using getShockRadius_nonneg_time[OF f] by simp
  have n: "length (getParticles ?m) = 2000"
    by (simp add: getParticles_def new_SupernovaModel_particles elements_forEach_length
        default_config_def default_ensemble_size)
  obtain ps where ps: "particles ?m = fst (newParticle (hd default_elements) 0 half_rng) # ps"
    using default_particles_first by blast
  have "radial_forEach 50 (Fin 0) (particles ?m)
          (replicate 50 \<lparr>hb_count = Fin 0, hb_mass = Fin 0\<rparr>) = Inl TypeError"
    by (simp add: ps radial_count_origin_time0[OF newParticle_origin])
  then have "DataManager_update new_DataManager ?m = Inl TypeError"
    by (simp add: DataManager_update_def updateRadialDistribution_def Let_def getParticles_def
        new_DataManager_def R)
  with R n show ?thesis by simp
qed

lemma default_model_fields:
  "energy (fst (new_SupernovaModel default_config g)) = Fin (10 ^ 51)"
  "density (fst (new_SupernovaModel default_config g)) = Fin (1 / 10 ^ 24)"
  "time (fst (new_SupernovaModel default_config g)) = Fin 0"
  "length (particles (fst (new_SupernovaModel default_config g))) = 2000"
  by (simp_all add: new_SupernovaModel_fields new_SupernovaModel_particles
      elements_forEach_length default_config_def default_ensemble_size)

lemma simulate_single:
  "fst (simulate cfg g [dt]) =
     fst (update dt (fst (new_SupernovaModel cfg g)) (snd (new_SupernovaModel cfg g)))"
  by (simp add: simulate_def split_def Let_def)

lemma update_length: "length (particles (fst (update dt m g))) = length (particles m)"
  by (simp add: update_def Let_def split_def forEach_rng_length)

subsection \<open>What does not depend on the random values\<close>

lemma getState_cong:
  assumes "energy m1 = energy m2" "density m1 = density m2" "time m1 = time m2"
  shows "getState m1 = getState m2"
  using assms
  by (simp add: getState_def getShockTemperature_def getShockVelocity_def getShockRadius_def)

lemma newParticle_identity:
  "identity_of (fst (newParticle elem pid g)) =
     (pid, el_name elem, el_A elem, el_color elem,
      jdiv (Fin (el_D0 elem)) (Math_sqrt (Fin (el_A elem))))"
  by (simp add: newParticle_def identity_of_def Let_def split_def)

lemma particle_loop_identity:
  "map identity_of (fst (particle_loop elem n pid g1)) =
     map identity_of (fst (particle_loop elem n pid g2))
   \<and> fst (snd (particle_loop elem n pid g1)) = fst (snd (particle_loop elem n pid g2))"
proof (induction n arbitrary: pid g1 g2)
  case 0
  then show ?case by simp
next
  case (Suc n)
  from Suc.IH[of "Suc pid" "snd (newParticle elem pid g1)" "snd (newParticle elem pid g2)"]
  show ?case
    by (simp add: split_def Let_def newParticle_identity)
qed

lemma elements_forEach_identity:
  "map identity_of (fst (elements_forEach es pid g1)) =
     map identity_of (fst (elements_forEach es pid g2))
   \<and> fst (snd (elements_forEach es pid g1)) = fst (snd (elements_forEach es pid g2))"
proof (induction es arbitrary: pid g1 g2)
  case Nil
  then show ?case by simp
next
  case (Cons elem es)
  let ?n = "nat \<lfloor>2000 * el_massFrac elem\<rfloor>"
  have 1: "map identity_of (fst (particle_loop elem ?n pid g1)) =
             map identity_of (fst (particle_loop elem ?n pid g2))"
    and 2: "fst (snd (particle_loop elem ?n pid g1)) = fst (snd (particle_loop elem ?n pid g2))"
    using particle_loop_identity[of elem ?n pid g1 g2] by blast+
  from Cons.IH[of "fst (snd (particle_loop elem ?n pid g2))"
      "snd (snd (particle_loop elem ?n pid g1))" "snd (snd (particle_loop elem ?n pid g2))"]
  show ?case
    by (simp add: split_def Let_def 1 2)
qed

lemma update_particle_identity:
  "identity_of (fst (update_particle m dt R Rc v T p g)) = identity_of p"
  by (simp add: update_particle_def identity_of_def Let_def split_def)

lemma forEach_rng_identity:
  assumes "\<And>p g. identity_of (fst (f p g)) = identity_of p"
  shows "map identity_of (fst (forEach_rng f ps g)) = map identity_of ps"
  by (induction ps arbitrary: g) (simp_all add: split_def Let_def assms)

lemma update_identity:
  "map identity_of (particles (fst (update dt m g))) = map identity_of (particles m)"
proof -
  have *: "map identity_of (fst (forEach_rng (update_particle m' dt' R Rc v T) ps g')) =
          map identity_of ps" for m' dt' R Rc v T ps g'
    by (rule forEach_rng_identity) (rule update_particle_identity)
  have "particles (fst (update dt m g)) =
          fst (forEach_rng (update_particle (m\<lparr>time := jadd (time m) dt\<rparr>) dt
                 (getShockRadius (m\<lparr>time := jadd (time m) dt\<rparr>))
                 (jmul (getShockRadius (m\<lparr>time := jadd (time m) dt\<rparr>))
                    (Fin 3086000000000000000))
                 (getShockVelocity (m\<lparr>time := jadd (time m) dt\<rparr>))
                 (getShockTemperature (m\<lparr>time := jadd (time m) dt\<rparr>)))
               (particles m) g)"
    by (simp add: update_def Let_def split_def)
  then show ?thesis
    by (simp only: *)
qed

lemma run_updates_independent:
  assumes "energy m1 = energy m2" "density m1 = density m2" "time m1 = time m2"
    and "map identity_of (particles m1) = map identity_of (particles m2)"
  shows "getState (fst (run_updates dts m1 g1)) = getState (fst (run_updates dts m2 g2))
       \<and> map identity_of (particles (fst (run_updates dts m1 g1))) =
           map identity_of (particles (fst (run_updates dts m2 g2)))"
  using assms
proof (induction dts arbitrary: m1 m2 g1 g2)
  case Nil
  then have "getState m1 = getState m2" by (intro getState_cong)
  with Nil show ?case by simp
next
  case (Cons dt dts)
  have "energy (fst (update dt m1 g1)) = energy (fst (update dt m2 g2))"
    "density (fst (update dt m1 g1)) = density (fst (update dt m2 g2))"
    "time (fst (update dt m1 g1)) = time (fst (update dt m2 g2))"
    "map identity_of (particles (fst (update dt m1 g1))) =
       map identity_of (particles (fst (update dt m2 g2)))"
    using Cons.prems by (simp_all add: update_fields update_identity)
  from Cons.IH[OF this] show ?case
    by (simp add: split_def Let_def)
qed



subsection \<open>Replaying the same random values\<close>

lemma same_draws_uniform:
  "same_draws g1 g2 \<Longrightarrow> uniform g1 (used_uniform g1 + k) = uniform g2 (used_uniform g2 + k)"
  by (simp add: same_draws_def)

lemma same_draws_gauss:
  "same_draws g1 g2 \<Longrightarrow> gauss g1 (used_gauss g1 + k) = gauss g2 (used_gauss g2 + k)"
  by (simp add: same_draws_def)

lemma Math_random_same:
  assumes "same_draws g1 g2"
  shows "fst (Math_random g1) = fst (Math_random g2)"
    and "same_draws (snd (Math_random g1)) (snd (Math_random g2))"
proof -
  show "fst (Math_random g1) = fst (Math_random g2)"
    using same_draws_uniform[OF assms, of 0] by (simp add: Math_random_def)
  show "same_draws (snd (Math_random g1)) (snd (Math_random g2))"
    unfolding same_draws_def
  proof (intro allI conjI)
    fix k
    show "uniform (snd (Math_random g1)) (used_uniform (snd (Math_random g1)) + k) =
          uniform (snd (Math_random g2)) (used_uniform (snd (Math_random g2)) + k)"
      using same_draws_uniform[OF assms, of "Suc k"] by (simp add: Math_random_def)
    show "gauss (snd (Math_random g1)) (used_gauss (snd (Math_random g1)) + k) =
          gauss (snd (Math_random g2)) (used_gauss (snd (Math_random g2)) + k)"
      using same_draws_gauss[OF assms, of k] by (simp add: Math_random_def)
  qed
qed

lemma d3_randomNormal_same:
  assumes "same_draws g1 g2"
  shows "fst (d3_randomNormal mu sigma g1) = fst (d3_randomNormal mu sigma g2)"
    and "same_draws (snd (d3_randomNormal mu sigma g1)) (snd (d3_randomNormal mu sigma g2))"
proof -
  show "fst (d3_randomNormal mu sigma g1) = fst (d3_randomNormal mu sigma g2)"
    using same_draws_gauss[OF assms, of 0] by (simp add: d3_randomNormal_def)
  show "same_draws (snd (d3_randomNormal mu sigma g1)) (snd (d3_randomNormal mu sigma g2))"
    unfolding same_draws_def
  proof (intro allI conjI)
    fix k
    show "uniform (snd (d3_randomNormal mu sigma g1)) (used_uniform (snd (d3_randomNormal mu sigma g1)) + k) =
          uniform (snd (d3_randomNormal mu sigma g2)) (used_uniform (snd (d3_randomNormal mu sigma g2)) + k)"
      using same_draws_uniform[OF assms, of k] by (simp add: d3_randomNormal_def)
    show "gauss (snd (d3_randomNormal mu sigma g1)) (used_gauss (snd (d3_randomNormal mu sigma g1)) + k) =
          gauss (snd (d3_randomNormal mu sigma g2)) (used_gauss (snd (d3_randomNormal mu sigma g2)) + k)"
      using same_draws_gauss[OF assms, of "Suc k"] by (simp add: d3_randomNormal_def)
  qed
qed

lemma newParticle_same:
  assumes "same_draws g1 g2"
  shows "fst (newParticle elem pid g1) = fst (newParticle elem pid g2)
       \<and> same_draws (snd (newParticle elem pid g1)) (snd (newParticle elem pid g2))"
proof -
  let ?a1 = "d3_randomNormal 0 0.1 g1" and ?a2 = "d3_randomNormal 0 0.1 g2"
  have a: "fst ?a1 = fst ?a2" "same_draws (snd ?a1) (snd ?a2)"
    using d3_randomNormal_same[OF assms] by blast+
  let ?b1 = "Math_random (snd ?a1)" and ?b2 = "Math_random (snd ?a2)"
  have b: "fst ?b1 = fst ?b2" "same_draws (snd ?b1) (snd ?b2)"
    using Math_random_same[OF a(2)] by blast+
  let ?c1 = "Math_random (snd ?b1)" and ?c2 = "Math_random (snd ?b2)"
  have c: "fst ?c1 = fst ?c2" "same_draws (snd ?c1) (snd ?c2)"
    using Math_random_same[OF b(2)] by blast+
  let ?d1 = "Math_random (snd ?c1)" and ?d2 = "Math_random (snd ?c2)"
  have d: "fst ?d1 = fst ?d2" "same_draws (snd ?d1) (snd ?d2)"
    using Math_random_same[OF c(2)] by blast+
  show ?thesis
    by (simp add: newParticle_def Let_def split_def a b c d)
qed

lemma update_particle_same:
  assumes "same_draws g1 g2"
  shows "fst (update_particle m dt R Rc v T p g1) = fst (update_particle m dt R Rc v T p g2)
       \<and> same_draws (snd (update_particle m dt R Rc v T p g1))
                     (snd (update_particle m dt R Rc v T p g2))"
proof -
  let ?a1 = "Math_random g1" and ?a2 = "Math_random g2"
  have a: "fst ?a1 = fst ?a2" "same_draws (snd ?a1) (snd ?a2)"
    using Math_random_same[OF assms] by blast+
  let ?b1 = "Math_random (snd ?a1)" and ?b2 = "Math_random (snd ?a2)"
  have b: "fst ?b1 = fst ?b2" "same_draws (snd ?b1) (snd ?b2)"
    using Math_random_same[OF a(2)] by blast+
  let ?c1 = "Math_random (snd ?b1)" and ?c2 = "Math_random (snd ?b2)"
  have c: "fst ?c1 = fst ?c2" "same_draws (snd ?c1) (snd ?c2)"
    using Math_random_same[OF b(2)] by blast+
  let ?d1 = "Math_random (snd ?c1)" and ?d2 = "Math_random (snd ?c2)"
  have d: "fst ?d1 = fst ?d2" "same_draws (snd ?d1) (snd ?d2)"
    using Math_random_same[OF c(2)] by blast+
  show ?thesis
    by (simp add: update_particle_def Let_def split_def a b c d)
qed

lemma forEach_rng_same:
  assumes step: "\<And>p g1 g2. same_draws g1 g2 \<Longrightarrow>
                   fst (f p g1) = fst (f p g2) \<and> same_draws (snd (f p g1)) (snd (f p g2))"
  shows "same_draws g1 g2 \<Longrightarrow>
           fst (forEach_rng f ps g1) = fst (forEach_rng f ps g2)
           \<and> same_draws (snd (forEach_rng f ps g1)) (snd (forEach_rng f ps g2))"
proof (induction ps arbitrary: g1 g2)
  case Nil
  then show ?case by simp
next
  case (Cons p ps)
  from step[OF Cons.prems, of p]
  have 1: "fst (f p g1) = fst (f p g2)" "same_draws (snd (f p g1)) (snd (f p g2))" by blast+
  from Cons.IH[OF 1(2)] 1(1) show ?case
    by (simp add: split_def Let_def)
qed

lemma particle_loop_same:
  "same_draws g1 g2 \<Longrightarrow>
     fst (particle_loop elem n pid g1) = fst (particle_loop elem n pid g2)
     \<and> fst (snd (particle_loop elem n pid g1)) = fst (snd (particle_loop elem n pid g2))
     \<and> same_draws (snd (snd (particle_loop elem n pid g1))) (snd (snd (particle_loop elem n pid g2)))"
proof (induction n arbitrary: pid g1 g2)
  case 0
  then show ?case by simp
next
  case (Suc n)
  from newParticle_same[OF Suc.prems, of elem pid]
  have 1: "fst (newParticle elem pid g1) = fst (newParticle elem pid g2)"
    "same_draws (snd (newParticle elem pid g1)) (snd (newParticle elem pid g2))" by blast+
  from Suc.IH[OF 1(2), of "Suc pid"] 1(1) show ?case
    by (simp add: split_def Let_def)
qed

lemma elements_forEach_same:
  "same_draws g1 g2 \<Longrightarrow>
     fst (elements_forEach es pid g1) = fst (elements_forEach es pid g2)
     \<and> fst (snd (elements_forEach es pid g1)) = fst (snd (elements_forEach es pid g2))
     \<and> same_draws (snd (snd (elements_forEach es pid g1))) (snd (snd (elements_forEach es pid g2)))"
proof (induction es arbitrary: pid g1 g2)
  case Nil
  then show ?case by simp
next
  case (Cons elem es)
  let ?n = "nat \<lfloor>2000 * el_massFrac elem\<rfloor>"
  from particle_loop_same[OF Cons.prems, of elem ?n pid]
  have 1: "fst (particle_loop elem ?n pid g1) = fst (particle_loop elem ?n pid g2)"
    "fst (snd (particle_loop elem ?n pid g1)) = fst (snd (particle_loop elem ?n pid g2))"
    "same_draws (snd (snd (particle_loop elem ?n pid g1))) (snd (snd (particle_loop elem ?n pid g2)))"
    by blast+
  from Cons.IH[OF 1(3), of "fst (snd (particle_loop elem ?n pid g2))"] 1(1,2) show ?case
    by (simp add: split_def Let_def)
qed

lemma new_SupernovaModel_same:
  assumes "same_draws g1 g2"
  shows "fst (new_SupernovaModel cfg g1) = fst (new_SupernovaModel cfg g2)
       \<and> same_draws (snd (new_SupernovaModel cfg g1)) (snd (new_SupernovaModel cfg g2))"
  using elements_forEach_same[OF assms,
      of "case cfg_elements cfg of None \<Rightarrow> default_elements | Some es \<Rightarrow> es" 0]
  by (simp add: new_SupernovaModel_def initializeParticles_def split_def Let_def)

lemma update_same:
  assumes "same_draws g1 g2"
  shows "fst (update dt m g1) = fst (update dt m g2)
       \<and> same_draws (snd (update dt m g1)) (snd (update dt m g2))"
proof -
  define f where "f = update_particle (m\<lparr>time := jadd (time m) dt\<rparr>) dt
                 (getShockRadius (m\<lparr>time := jadd (time m) dt\<rparr>))
                 (jmul (getShockRadius (m\<lparr>time := jadd (time m) dt\<rparr>))
                    (Fin 3086000000000000000))
                 (getShockVelocity (m\<lparr>time := jadd (time m) dt\<rparr>))
                 (getShockTemperature (m\<lparr>time := jadd (time m) dt\<rparr>))"
  have u: "update dt m g = (m\<lparr>time := jadd (time m) dt, particles := fst (forEach_rng f (particles m) g)\<rparr>,
                            snd (forEach_rng f (particles m) g))" for g
    by (simp add: update_def Let_def split_def f_def)
  have "fst (forEach_rng f (particles m) g1) = fst (forEach_rng f (particles m) g2)
       \<and> same_draws (snd (forEach_rng f (particles m) g1)) (snd (forEach_rng f (particles m) g2))"
    unfolding f_def by (rule forEach_rng_same[OF update_particle_same assms])
  then show ?thesis by (simp add: u)
qed

lemma run_updates_same:
  "same_draws g1 g2 \<Longrightarrow> fst (run_updates dts m g1) = fst (run_updates dts m g2)"
proof (induction dts arbitrary: m g1 g2)
  case Nil
  then show ?case by simp
next
  case (Cons dt dts)
  from update_same[OF Cons.prems, of dt m]
  have 1: "fst (update dt m g1) = fst (update dt m g2)"
    "same_draws (snd (update dt m g1)) (snd (update dt m g2))" by blast+
  from Cons.IH[OF 1(2), of "fst (update dt m g2)"] 1(1) show ?case
    by (simp add: split_def Let_def)
qed

lemma simulate_same:
  assumes "same_draws g1 g2"
  shows "fst (simulate cfg g1 dts) = fst (simulate cfg g2 dts)"
proof -
  from new_SupernovaModel_same[OF assms, of cfg]
  have 1: "fst (new_SupernovaModel cfg g1) = fst (new_SupernovaModel cfg g2)"
    "same_draws (snd (new_SupernovaModel cfg g1)) (snd (new_SupernovaModel cfg g2))" by blast+
  from run_updates_same[OF 1(2), of dts "fst (new_SupernovaModel cfg g2)"] 1(1)
  show ?thesis by (simp add: simulate_def split_def Let_def)
qed


text \<open>
  C9, as stated: two runs with the same configuration and steps give identical particle
  trajectories. The constructor takes the configuration only; the random values come
  from the process-wide sources. With the same (default) configuration, the first
  particle starts at \<open>xi = 0\<close> when the first normal deviate is \<open>0\<close> and at \<open>xi = 0.01\<close> when
  it is \<open>1\<close>.
\<close>

theorem C9_counterexample:
  "p_xi (hd (particles (fst (simulate default_config half_rng [])))) = Fin 0
   \<and> p_xi (hd (particles (fst (simulate default_config unit_rng [])))) = Fin (1 / 100)
   \<and> particles (fst (simulate default_config half_rng [])) \<noteq>
       particles (fst (simulate default_config unit_rng []))"
proof -
  obtain ps where a: "particles (fst (simulate default_config half_rng [])) =
      fst (newParticle (hd default_elements) 0 half_rng) # ps"
    using default_particles_first[of half_rng] by (auto simp: simulate_def split_def Let_def)
  obtain qs where b: "particles (fst (simulate default_config unit_rng [])) =
      fst (newParticle (hd default_elements) 0 unit_rng) # qs"
    using default_particles_first[of unit_rng] by (auto simp: simulate_def split_def Let_def)
  have 1: "p_xi (fst (newParticle (hd default_elements) 0 half_rng)) = Fin 0"
    by (simp add: newParticle_def Let_def split_def d3_randomNormal_def half_rng_def)
  have 2: "p_xi (fst (newParticle (hd default_elements) 0 unit_rng)) = Fin (1 / 100)"
    by (simp add: newParticle_def Let_def split_def d3_randomNormal_def unit_rng_def)
  have 3: "fst (newParticle (hd default_elements) 0 half_rng) \<noteq>
           fst (newParticle (hd default_elements) 0 unit_rng)"
    using 1 2 by (metis jsnum.inject zero_neq_one divide_eq_0_iff zero_neq_numeral)
  show ?thesis
    unfolding a b using 1 2 3 by (simp only: list.sel list.inject) simp
qed

subsection \<open>A run that puts every particle on the negative x axis\<close>

lemma particle_loop_rng:
  "uniform (snd (snd (particle_loop elem n pid g))) = uniform g"
  by (induction n arbitrary: pid g) (simp_all add: split_def Let_def newParticle_rng)

lemma elements_forEach_rng:
  "uniform (snd (snd (elements_forEach es pid g))) = uniform g"
  by (induction es arbitrary: pid g) (simp_all add: split_def Let_def particle_loop_rng)

lemma new_SupernovaModel_rng:
  "uniform (snd (new_SupernovaModel cfg g)) = uniform g"
  by (simp add: new_SupernovaModel_def initializeParticles_def split_def Let_def elements_forEach_rng)

lemma newParticle_half:
  assumes "uniform g = (\<lambda>k. 1 / 2)"
  shows "p_theta (fst (newParticle elem pid g)) = Fin pi"
    and "p_phi (fst (newParticle elem pid g)) = Fin (pi / 2)"
  using assms
  by (simp_all add: newParticle_def Let_def split_def Math_random_def d3_randomNormal_def Math_PI_def)

lemma update_particle_west:
  assumes u: "uniform g = (\<lambda>k. 1 / 2)"
    and p: "p_xi p = Fin 0" "p_theta p = Fin pi" "p_phi p = Fin (pi / 2)"
      "p_diffusionCoeff p = Fin D" "0 \<le> D"
    and h: "0 < h" and R: "0 < R" and v: "0 < v"
  shows "\<exists>r. 0 < r
           \<and> p_x (fst (update_particle m (Fin h) (Fin R) (Fin (R * 3086000000000000000)) (Fin v) T p g))
               = Fin (- r)
           \<and> p_y (fst (update_particle m (Fin h) (Fin R) (Fin (R * 3086000000000000000)) (Fin v) T p g))
               = Fin 0"
proof -
  let ?p = "fst (update_particle m (Fin h) (Fin R) (Fin (R * 3086000000000000000)) (Fin v) T p g)"
  have nn: "\<not> D * h < 0" using p(5) h by (simp add: not_less)
  define y where "y = v * 100000 * (h * 31560000) / (R * 3086000000000000000)"
  have y: "0 < y" using h R v by (simp add: y_def)
  have "p_xi ?p = Math_min (Fin 1) (Math_max (Fin 0) (Fin y))"
    using R nn
    by (simp add: update_particle_def Let_def split_def Math_random_def p u velocityProfile_Fin
        y_def del: Math_min.simps Math_max.simps)
  then have xi: "p_xi ?p = Fin (min 1 y)"
    using y by (simp add: min_def)
  have th: "p_theta ?p = Fin pi"
    by (simp add: update_particle_def Let_def split_def Math_random_def p u)
  have ph: "p_phi ?p = Fin (pi / 2)"
    by (simp add: update_particle_def Let_def split_def Math_random_def p u jgt_def Math_PI_def)
  have "p_x ?p = Fin (- (min 1 y * R))" "p_y ?p = Fin 0"
    by (simp_all add: update_particle_shape xi th ph)
  moreover have "0 < min 1 y * R" using y R by simp
  ultimately show ?thesis by blast
qed

lemma west_binIdx:
  assumes "0 < r" "p_x p = Fin (- r)" "p_y p = Fin 0"
  shows "angular_binIdx 36 p = Fin 36"
proof -
  have "Math_atan2 (p_y p) (p_x p) = Fin pi"
    using assms by simp
  then show ?thesis
    by (simp add: angular_binIdx_def Math_PI_def)
qed

lemma west_run_first:
  "\<exists>r p ps. 0 < r \<and> p_x p = Fin (- r) \<and> p_y p = Fin 0
     \<and> particles (fst (simulate default_config half_rng [Fin 100])) = p # ps"
proof -
  let ?m0 = "fst (new_SupernovaModel default_config half_rng)"
  let ?g0 = "snd (new_SupernovaModel default_config half_rng)"
  let ?el = "hd default_elements"
  let ?p0 = "fst (newParticle ?el 0 half_rng)"
  obtain ps where ps: "particles ?m0 = ?p0 # ps"
    using default_particles_first by blast
  have u0: "uniform half_rng = (\<lambda>k. 1 / 2)" by (simp add: half_rng_def)
  have u: "uniform ?g0 = (\<lambda>k. 1 / 2)" by (simp add: new_SupernovaModel_rng u0)
  have p0: "p_xi ?p0 = Fin 0" "p_theta ?p0 = Fin pi" "p_phi ?p0 = Fin (pi / 2)"
    "p_diffusionCoeff ?p0 = Fin (10 ^ 18 / sqrt 56)"
       apply (simp add: newParticle_def Let_def split_def d3_randomNormal_def half_rng_def)
      apply (rule newParticle_half(1)[OF u0])
     apply (rule newParticle_half(2)[OF u0])
    apply (simp add: newParticle_def Let_def split_def default_elements_def)
    done
  define m1 where "m1 = ?m0\<lparr>time := jadd (time ?m0) (Fin 100)\<rparr>"
  have f: "energy m1 = Fin (10 ^ 51)" "density m1 = Fin (1 / 10 ^ 24)" "time m1 = Fin 100"
    by (simp_all add: m1_def default_model_fields)
  define R where "R = 1.15 * (10 ^ 51 / (1 / 10 ^ 24)) powr 0.2 * (100 * 31560000) powr 0.4
          / (3086000000000000000 :: real)"
  have R: "getShockRadius m1 = Fin R" "0 < R"
    using getShockRadius_positive[OF f] by (simp_all add: R_def)
  obtain v where v: "0 < v" "getShockVelocity m1 = Fin v"
    using getShockVelocity_gt0[OF f] by auto
  let ?f = "update_particle m1 (Fin 100) (Fin R) (Fin (R * 3086000000000000000)) (Fin v)
              (getShockTemperature m1)"
  have "particles (fst (update (Fin 100) ?m0 ?g0)) = fst (forEach_rng ?f (particles ?m0) ?g0)"
    by (simp add: update_def Let_def split_def m1_def[symmetric] R(1) v(2)) (simp add: m1_def)
  then have "\<exists>qs. particles (fst (simulate default_config half_rng [Fin 100])) = fst (?f ?p0 ?g0) # qs"
    by (simp add: simulate_single ps split_def Let_def)
  moreover obtain r where "0 < r" "p_x (fst (?f ?p0 ?g0)) = Fin (- r)" "p_y (fst (?f ?p0 ?g0)) = Fin 0"
    using update_particle_west[OF u p0 _ _ R(2) v(1), of 100 m1 "getShockTemperature m1"] by auto
  ultimately show ?thesis by blast
qed


text \<open>
  C4 fails for a particle on the negative x axis: \<open>atan2(0, -1) = \<pi>\<close>, the angle is
  \<open>2\<pi>\<close>, the bin index is \<open>36\<close>, one past the last bin. \<open>hist[36]++\<close> then extends the array
  by a 37th slot holding \<open>NaN\<close>, and none of the 36 bins counts the particle. The model
  produces such particles: when \<open>Math.random()\<close> returns \<open>0.5\<close>, the azimuth is \<open>\<pi>\<close> and stays
  \<open>\<pi>\<close>, and after \<open>update(100)\<close> the first particle of the default ensemble has bin index 36.
\<close>

theorem C4_failing_input:
  "Math_atan2 (p_y (particle_at (- 1) 0 0)) (p_x (particle_at (- 1) 0 0)) = Math_PI
   \<and> angular_binIdx 36 (particle_at (- 1) 0 0) = Fin 36
   \<and> map (map_option ad_count) (angularDist (data (updateAngularDistribution
        (new_DataManager\<lparr>data := (data new_DataManager)\<lparr>d_particles := [particle_at (- 1) 0 0]\<rparr>\<rparr>)))) =
       replicate 36 (Some (Fin 0)) @ [Some NaN]
   \<and> angular_binIdx 36 (hd (particles (fst (simulate default_config half_rng [Fin 100])))) = Fin 36"
proof -
  have a: "Math_atan2 (p_y (particle_at (- 1) 0 0)) (p_x (particle_at (- 1) 0 0)) = Math_PI"
    by (simp add: particle_at_def Math_PI_def)
  have i: "angular_binIdx 36 (particle_at (- 1) 0 0) = Fin 36"
    by (simp add: angular_binIdx_def a) (simp add: Math_PI_def)
  have "array_incr (replicate 36 (Some (Fin 0))) (Fin 36) = replicate 36 (Some (Fin 0)) @ [Some NaN]"
    by (simp add: array_incr_def)
  then have c: "map (map_option ad_count) (angularDist (data (updateAngularDistribution
        (new_DataManager\<lparr>data := (data new_DataManager)\<lparr>d_particles := [particle_at (- 1) 0 0]\<rparr>\<rparr>)))) =
       replicate 36 (Some (Fin 0)) @ [Some NaN]"
    using i by (simp add: updateAngularDistribution_counts new_DataManager_def)
  obtain r p ps where w: "0 < r" "p_x p = Fin (- r)" "p_y p = Fin 0"
      "particles (fst (simulate default_config half_rng [Fin 100])) = p # ps"
    using west_run_first by blast
  have "angular_binIdx 36 (hd (particles (fst (simulate default_config half_rng [Fin 100])))) = Fin 36"
    using west_binIdx[OF w(1-3)] by (simp add: w(4))
  with a i c show ?thesis by blast
qed

subsection \<open>The count of each radial bin\<close>

lemma array_index_Some: "array_index v = Some i \<Longrightarrow> v = Fin (real i)"
proof (cases v)
  case (Fin r)
  assume "array_index v = Some i"
  with Fin have r: "0 \<le> r" "r = of_int \<lfloor>r\<rfloor>" "i = nat \<lfloor>r\<rfloor>"
    by (auto split: if_splits)
  from r(1) have "0 \<le> \<lfloor>r\<rfloor>" by simp
  then have "real (nat \<lfloor>r\<rfloor>) = of_int \<lfloor>r\<rfloor>" by simp
  with r Fin show ?thesis by simp
qed simp_all

lemma radial_count_bins:
  assumes "radius3 p = Fin r" "0 \<le> r" "0 < R" "0 < bins" "length hist = bins"
    and "\<forall>i<bins. hb_count (hist ! i) = Fin (c i)"
  shows "\<exists>hist'. radial_count bins (Fin R) hist p = Inr hist' \<and> length hist' = bins
           \<and> (\<forall>i<bins. hb_count (hist' ! i) =
                 Fin (c i + (if radial_binIdx bins (Fin R) p = Fin (real i) then 1 else 0)))"
proof -
  obtain j where j: "j < bins" "array_index (radial_binIdx bins (Fin R) p) = Some j"
    using radial_binIdx_index[OF assms(1-4)] by blast
  have idx: "radial_binIdx bins (Fin R) p = Fin (real j)"
    using array_index_Some[OF j(2)] .
  define h' where "h' = hist[j := \<lparr>hb_count = jadd (hb_count (hist ! j)) (Fin 1),
                               hb_mass = jadd (hb_mass (hist ! j)) (p_mass p)\<rparr>]"
  have 1: "radial_count bins (Fin R) hist p = Inr h'"
    using j assms(5) by (simp add: radial_count_def h'_def)
  have 2: "length h' = bins" using assms(5) by (simp add: h'_def)
  have 3: "hb_count (h' ! i) =
             Fin (c i + (if radial_binIdx bins (Fin R) p = Fin (real i) then 1 else 0))"
    if "i < bins" for i
  proof (cases "i = j")
    case True
    then show ?thesis
      using assms(5,6) j(1) by (simp add: h'_def idx)
  next
    case False
    then show ?thesis
      using assms(5,6) that by (simp add: h'_def idx)
  qed
  from 1 2 3 show ?thesis by blast
qed

lemma radial_forEach_bins:
  assumes "0 < R" "0 < bins"
    and "list_all (\<lambda>p. isFin (p_x p) \<and> isFin (p_y p) \<and> isFin (p_z p)) ps"
    and "length hist = bins" "\<forall>i<bins. hb_count (hist ! i) = Fin (c i)"
  shows "\<exists>hist'. radial_forEach bins (Fin R) ps hist = Inr hist' \<and> length hist' = bins
           \<and> (\<forall>i<bins. hb_count (hist' ! i) =
                 Fin (c i + real (length (filter
                        (\<lambda>p. radial_binIdx bins (Fin R) p = Fin (real i)) ps))))"
  using assms(3-5)
proof (induction ps arbitrary: hist c)
  case Nil
  then show ?case by simp
next
  case (Cons p ps)
  from Cons.prems(1) obtain r where r: "0 \<le> r" "radius3 p = Fin r"
    using radius3_finite[of p] by auto
  define c1 where "c1 = (\<lambda>i. c i + (if radial_binIdx bins (Fin R) p = Fin (real i) then 1 else 0))"
  obtain h1 where s: "radial_count bins (Fin R) hist p = Inr h1" "length h1 = bins"
      "\<forall>i<bins. hb_count (h1 ! i) = Fin (c1 i)"
    using radial_count_bins[OF r(2) r(1) assms(1,2) Cons.prems(2,3)] unfolding c1_def by blast
  from Cons.prems(1) have rest: "list_all (\<lambda>p. isFin (p_x p) \<and> isFin (p_y p) \<and> isFin (p_z p)) ps"
    by simp
  obtain h2 where t: "radial_forEach bins (Fin R) ps h1 = Inr h2" "length h2 = bins"
      "\<forall>i<bins. hb_count (h2 ! i) =
          Fin (c1 i + real (length (filter (\<lambda>p. radial_binIdx bins (Fin R) p = Fin (real i)) ps)))"
    using Cons.IH[OF rest s(2,3)] by blast
  have "radial_forEach bins (Fin R) (p # ps) hist = Inr h2"
    by (simp add: s(1) t(1))
  moreover have "\<forall>i<bins. hb_count (h2 ! i) =
      Fin (c i + real (length (filter (\<lambda>p. radial_binIdx bins (Fin R) p = Fin (real i)) (p # ps))))"
    using t(3) by (simp add: c1_def)
  ultimately show ?case using t(2) by blast
qed

lemma map_nth_upt: "length xs = n \<Longrightarrow> (\<forall>i<n. f (xs ! i) = g i) \<Longrightarrow> map f xs = map g [0..<n]"
  by (auto simp: list_eq_iff_nth_eq)

lemma updateRadialDistribution_bins:
  assumes "getShockRadius m = Fin R" "0 < R" "0 < radial (binConfig dm)"
    and "list_all (\<lambda>p. isFin (p_x p) \<and> isFin (p_y p) \<and> isFin (p_z p)) (d_particles (data dm))"
  shows "\<exists>dm'. updateRadialDistribution dm m = Inr dm'
           \<and> map rd_count (radialDist (data dm')) =
               map (\<lambda>i. Fin (real (length (filter
                      (\<lambda>p. radial_binIdx (radial (binConfig dm)) (Fin R) p = Fin (real i))
                      (d_particles (data dm))))))
                 [0..<radial (binConfig dm)]"
proof -
  define bins where "bins = radial (binConfig dm)"
  define hist0 where "hist0 = replicate bins \<lparr>hb_count = Fin 0, hb_mass = Fin 0\<rparr>"
  have h0: "length hist0 = bins" "\<forall>i<bins. hb_count (hist0 ! i) = Fin ((\<lambda>i. 0) i)"
    by (simp_all add: hist0_def)
  obtain hist where h: "radial_forEach bins (Fin R) (d_particles (data dm)) hist0 = Inr hist"
      "length hist = bins"
      "\<forall>i<bins. hb_count (hist ! i) =
         Fin (0 + real (length (filter (\<lambda>p. radial_binIdx bins (Fin R) p = Fin (real i))
                                  (d_particles (data dm)))))"
    using radial_forEach_bins[OF assms(2) assms(3)[folded bins_def] assms(4) h0] by blast
  define dm' where "dm' = dm\<lparr>data := (data dm)\<lparr>radialDist :=
                    map (radial_bin bins (Fin R)) (enumerate 0 hist)\<rparr>\<rparr>"
  have 1: "updateRadialDistribution dm m = Inr dm'"
    using h(1) by (simp add: updateRadialDistribution_def Let_def assms(1) bins_def hist0_def dm'_def)
  have "map rd_count (radialDist (data dm')) = map hb_count hist"
    using radial_counts[of bins "Fin R" 0 hist] by (simp add: dm'_def del: map_map)
  also have "\<dots> = map (\<lambda>i. Fin (real (length (filter
                      (\<lambda>p. radial_binIdx bins (Fin R) p = Fin (real i)) (d_particles (data dm))))))
                 [0..<bins]"
    using h(3) by (intro map_nth_upt[OF h(2)]) simp
  finally show ?thesis using 1 by (auto simp: bins_def)
qed

lemma radial_binIdx_code:
  assumes "p_x p = Fin a" "p_y p = Fin b" "p_z p = Fin c" "0 < R" "0 < bins"
  shows "radial_binIdx bins (Fin R) p =
           Fin (min (real bins - 1) (of_int \<lfloor>sqrt (a\<^sup>2 + b\<^sup>2 + c\<^sup>2) / R * real bins\<rfloor>))"
    and "R \<le> sqrt (a\<^sup>2 + b\<^sup>2 + c\<^sup>2) \<Longrightarrow> radial_binIdx bins (Fin R) p = Fin (real bins - 1)"
proof -
  have r: "radius3 p = Fin (sqrt (a\<^sup>2 + b\<^sup>2 + c\<^sup>2))"
    by (rule radius3_Fin[OF assms(1-3)])
  show "radial_binIdx bins (Fin R) p =
           Fin (min (real bins - 1) (of_int \<lfloor>sqrt (a\<^sup>2 + b\<^sup>2 + c\<^sup>2) / R * real bins\<rfloor>))"
    using radial_binIdx_Fin[OF r assms(4,5)] by simp
  show "R \<le> sqrt (a\<^sup>2 + b\<^sup>2 + c\<^sup>2) \<Longrightarrow> radial_binIdx bins (Fin R) p = Fin (real bins - 1)"
    by (rule radial_binIdx_last[OF r _ assms(4,5)])
qed

text \<open>
  C5, amended: on every ingest where the shock radius is a positive finite number and
  every particle position is finite, the ingest returns and, for each bin \<open>i\<close>, the count
  of bin \<open>i\<close> is the number of particles whose bin index is \<open>i\<close>; the counts sum to the
  number of particles. The bin index of a particle at \<open>(x, y, z)\<close> is
  \<open>min(bins - 1, floor((r / shockRadius) * bins))\<close> with \<open>r = sqrt(x\<^sup>2 + y\<^sup>2 + z\<^sup>2)\<close>, as the code
  computes it (in exact arithmetic this is \<open>floor(r / binWidth)\<close> for
  \<open>binWidth = shockRadius / bins\<close>), and it is the last bin when \<open>r\<close> is at or beyond the
  shock radius. \<open>bins\<close> is \<open>binConfig.radial\<close>, 50 in a new manager.
\<close>

theorem C5_radial:
  assumes "getShockRadius m = Fin R" and "0 < R" and "0 < radial (binConfig dm)"
    and "list_all (\<lambda>p. isFin (p_x p) \<and> isFin (p_y p) \<and> isFin (p_z p)) (getParticles m)"
  shows "(\<exists>dm'. DataManager_update dm m = Inr dm'
           \<and> map rd_count (radialDist (data dm')) =
               map (\<lambda>i. Fin (real (length (filter
                      (\<lambda>p. radial_binIdx (radial (binConfig dm)) (Fin R) p = Fin (real i))
                      (getParticles m)))))
                 [0..<radial (binConfig dm)]
           \<and> sum_counts (map rd_count (radialDist (data dm'))) = Fin (real (length (getParticles m))))
       \<and> list_all (\<lambda>p. \<exists>a b c. p_x p = Fin a \<and> p_y p = Fin b \<and> p_z p = Fin c
             \<and> radial_binIdx (radial (binConfig dm)) (Fin R) p =
                 Fin (min (real (radial (binConfig dm)) - 1)
                          (of_int \<lfloor>sqrt (a\<^sup>2 + b\<^sup>2 + c\<^sup>2) / R * real (radial (binConfig dm))\<rfloor>))
             \<and> (R \<le> sqrt (a\<^sup>2 + b\<^sup>2 + c\<^sup>2) \<longrightarrow>
                  radial_binIdx (radial (binConfig dm)) (Fin R) p =
                    Fin (real (radial (binConfig dm)) - 1)))
           (getParticles m)"
proof
  define dm1 where "dm1 = dm\<lparr>data := (data dm)\<lparr>d_particles := getParticles m\<rparr>\<rparr>"
  have b: "radial (binConfig dm1) = radial (binConfig dm)"
    and ps: "d_particles (data dm1) = getParticles m"
    by (simp_all add: dm1_def)
  have pre: "0 < radial (binConfig dm1)"
    "list_all (\<lambda>p. isFin (p_x p) \<and> isFin (p_y p) \<and> isFin (p_z p)) (d_particles (data dm1))"
    using assms(3,4) by (simp_all add: b ps)
  obtain dm2 where r: "updateRadialDistribution dm1 m = Inr dm2"
      "sum_counts (map rd_count (radialDist (data dm2))) = Fin (real (length (getParticles m)))"
    using updateRadialDistribution_ok[OF assms(1,2) pre] by (auto simp: ps)
  obtain dm3 where q: "updateRadialDistribution dm1 m = Inr dm3"
      "map rd_count (radialDist (data dm3)) =
         map (\<lambda>i. Fin (real (length (filter
                (\<lambda>p. radial_binIdx (radial (binConfig dm)) (Fin R) p = Fin (real i))
                (getParticles m)))))
           [0..<radial (binConfig dm)]"
    using updateRadialDistribution_bins[OF assms(1,2) pre] by (auto simp: b ps)
  from r(1) q(1) have same: "dm3 = dm2" by simp
  have "DataManager_update dm m = Inr (updateTimeSeries (updateAngularDistribution dm2) m)"
    by (simp add: DataManager_update_def Let_def dm1_def[symmetric] r(1))
  with r(2) q(2)
  show "\<exists>dm'. DataManager_update dm m = Inr dm'
           \<and> map rd_count (radialDist (data dm')) =
               map (\<lambda>i. Fin (real (length (filter
                      (\<lambda>p. radial_binIdx (radial (binConfig dm)) (Fin R) p = Fin (real i))
                      (getParticles m)))))
                 [0..<radial (binConfig dm)]
           \<and> sum_counts (map rd_count (radialDist (data dm'))) = Fin (real (length (getParticles m)))"
    by (simp add: same updateTimeSeries_radialDist updateAngularDistribution_fields)
next
  show "list_all (\<lambda>p. \<exists>a b c. p_x p = Fin a \<and> p_y p = Fin b \<and> p_z p = Fin c
             \<and> radial_binIdx (radial (binConfig dm)) (Fin R) p =
                 Fin (min (real (radial (binConfig dm)) - 1)
                          (of_int \<lfloor>sqrt (a\<^sup>2 + b\<^sup>2 + c\<^sup>2) / R * real (radial (binConfig dm))\<rfloor>))
             \<and> (R \<le> sqrt (a\<^sup>2 + b\<^sup>2 + c\<^sup>2) \<longrightarrow>
                  radial_binIdx (radial (binConfig dm)) (Fin R) p =
                    Fin (real (radial (binConfig dm)) - 1)))
           (getParticles m)"
    using assms(4)
  proof (rule list.pred_mono_strong)
    fix p :: particle
    assume "isFin (p_x p) \<and> isFin (p_y p) \<and> isFin (p_z p)"
    then obtain a b c where e: "p_x p = Fin a" "p_y p = Fin b" "p_z p = Fin c"
      by (auto simp: isFin_iff)
    show "\<exists>a b c. p_x p = Fin a \<and> p_y p = Fin b \<and> p_z p = Fin c
             \<and> radial_binIdx (radial (binConfig dm)) (Fin R) p =
                 Fin (min (real (radial (binConfig dm)) - 1)
                          (of_int \<lfloor>sqrt (a\<^sup>2 + b\<^sup>2 + c\<^sup>2) / R * real (radial (binConfig dm))\<rfloor>))
             \<and> (R \<le> sqrt (a\<^sup>2 + b\<^sup>2 + c\<^sup>2) \<longrightarrow>
                  radial_binIdx (radial (binConfig dm)) (Fin R) p =
                    Fin (real (radial (binConfig dm)) - 1))"
      using radial_binIdx_code[OF e assms(2,3)] e by blast
  qed
qed

text \<open>
  C5, amended, for a new manager and the default model after \<open>update(100)\<close>: 50 bins,
  each counting the particles indexed there, 2000 in all.
\<close>

theorem C5_radial_witness:
  "getShockRadius (fst (simulate default_config half_rng [Fin 100])) =
     Fin (1.15 * (10 ^ 51 / (1 / 10 ^ 24)) powr 0.2 * (100 * 31560000) powr 0.4
          / 3086000000000000000)
   \<and> (0::real) < 1.15 * (10 ^ 51 / (1 / 10 ^ 24)) powr 0.2 * (100 * 31560000) powr 0.4
          / 3086000000000000000
   \<and> 0 < radial (binConfig new_DataManager)
   \<and> list_all (\<lambda>p. isFin (p_x p) \<and> isFin (p_y p) \<and> isFin (p_z p))
        (getParticles (fst (simulate default_config half_rng [Fin 100])))
   \<and> (\<exists>dm'. DataManager_update new_DataManager (fst (simulate default_config half_rng [Fin 100]))
              = Inr dm'
           \<and> map rd_count (radialDist (data dm')) =
               map (\<lambda>i. Fin (real (length (filter
                      (\<lambda>p. radial_binIdx 50
                         (Fin (1.15 * (10 ^ 51 / (1 / 10 ^ 24)) powr 0.2 * (100 * 31560000) powr 0.4
                               / 3086000000000000000)) p = Fin (real i))
                      (getParticles (fst (simulate default_config half_rng [Fin 100])))))))
                 [0..<50]
           \<and> sum_counts (map rd_count (radialDist (data dm'))) = Fin 2000)"
proof -
  let ?m = "fst (simulate default_config half_rng [Fin 100])"
  let ?R = "1.15 * (10 ^ 51 / (1 / 10 ^ 24)) powr 0.2 * (100 * 31560000) powr 0.4
          / 3086000000000000000 :: real"
  have f: "energy ?m = Fin (10 ^ 51)" "density ?m = Fin (1 / 10 ^ 24)" "time ?m = Fin 100"
    by (simp_all add: simulate_single update_fields default_model_fields)
  have R: "getShockRadius ?m = Fin ?R"
    using getShockRadius_positive[OF f] by simp
  have pos: "0 < ?R" by simp
  have "model_ok ?m"
    by (rule simulate_ok(1)[OF default_config_ok half_rng_ok]) simp
  then have "list_all particle_ok (getParticles ?m)"
    by (simp add: model_ok_def getParticles_def)
  then have fin: "list_all (\<lambda>p. isFin (p_x p) \<and> isFin (p_y p) \<and> isFin (p_z p)) (getParticles ?m)"
    by (rule list.pred_mono_strong) (simp add: particle_ok_def)
  have b: "0 < radial (binConfig new_DataManager)" "radial (binConfig new_DataManager) = 50"
    by (simp_all add: new_DataManager_def)
  have n: "length (getParticles ?m) = 2000"
    by (simp add: getParticles_def simulate_single update_length default_model_fields)
  from C5_radial [OF R pos b(1) fin] R pos fin b(1) show ?thesis
    by (simp only: n b(2)) simp
qed

subsection \<open>The time series over a run of ingests\<close>

lemma sample_of_particles:
  "d_particles (data a) = d_particles (data b) \<Longrightarrow> sample_of a m = sample_of b m"
  by (simp add: sample_of_def)

lemma DataManager_update_Inr:
  assumes "updateRadialDistribution (dm\<lparr>data := (data dm)\<lparr>d_particles := getParticles m\<rparr>\<rparr>) m = Inr dm2"
  shows "DataManager_update dm m = Inr (updateTimeSeries (updateAngularDistribution dm2) m)"
    and "binConfig dm2 = binConfig dm"
    and "timeSeries (data dm2) = timeSeries (data dm)"
    and "d_particles (data dm2) = getParticles m"
proof -
  show "DataManager_update dm m = Inr (updateTimeSeries (updateAngularDistribution dm2) m)"
    using assms by (simp add: DataManager_update_def Let_def)
  from assms show "binConfig dm2 = binConfig dm" "timeSeries (data dm2) = timeSeries (data dm)"
    "d_particles (data dm2) = getParticles m"
    by (auto simp: updateRadialDistribution_def Let_def split: sum.splits)
qed

lemma returns_iff:
  "returns dm m \<longleftrightarrow>
     (\<exists>hist. radial_forEach (radial (binConfig dm)) (getShockRadius m) (getParticles m)
               (replicate (radial (binConfig dm)) \<lparr>hb_count = Fin 0, hb_mass = Fin 0\<rparr>) = Inr hist)"
  by (auto simp: returns_def DataManager_update_def updateRadialDistribution_def Let_def
      split: sum.splits)

lemma returns_cong:
  "radial (binConfig dm1) = radial (binConfig dm2) \<Longrightarrow> returns dm1 m = returns dm2 m"
  by (simp add: returns_iff)

lemma after_update_binConfig: "binConfig (after_update dm m) = binConfig dm"
proof (cases "updateRadialDistribution (dm\<lparr>data := (data dm)\<lparr>d_particles := getParticles m\<rparr>\<rparr>) m")
  case (Inl e)
  then show ?thesis by (simp add: after_update_def DataManager_update_def Let_def)
next
  case (Inr dm2)
  from DataManager_update_Inr[OF Inr] show ?thesis
    by (simp add: after_update_def updateTimeSeries_fields updateAngularDistribution_fields)
qed

lemma after_update_series:
  "timeSeries (data (after_update dm m)) =
     (if returns dm m
      then (if maxHistory (binConfig dm) < Suc (length (timeSeries (data dm)))
            then tl (timeSeries (data dm) @ [ingest_sample m])
            else timeSeries (data dm) @ [ingest_sample m])
      else timeSeries (data dm))"
proof (cases "updateRadialDistribution (dm\<lparr>data := (data dm)\<lparr>d_particles := getParticles m\<rparr>\<rparr>) m")
  case (Inl e)
  then show ?thesis
    by (simp add: after_update_def returns_def DataManager_update_def Let_def)
next
  case (Inr dm2)
  note u = DataManager_update_Inr[OF Inr]
  have s: "sample_of (updateAngularDistribution dm2) m = ingest_sample m"
    unfolding ingest_sample_def
    by (rule sample_of_particles) (simp add: updateAngularDistribution_fields u(4))
  show ?thesis
    by (simp add: after_update_def returns_def u(1) updateTimeSeries_series
        updateAngularDistribution_fields u(2,3) s)
qed

lemma ingest_all_window:
  assumes "length (timeSeries (data dm)) \<le> maxHistory (binConfig dm)"
  shows "timeSeries (data (ingest_all ms dm)) =
           drop (length (timeSeries (data dm)) + length (filter (returns dm) ms)
                   - maxHistory (binConfig dm))
             (timeSeries (data dm) @ map ingest_sample (filter (returns dm) ms))"
  using assms
proof (induction ms arbitrary: dm)
  case Nil
  then show ?case by simp
next
  case (Cons m ms)
  define ts where "ts = timeSeries (data dm)"
  define cap where "cap = maxHistory (binConfig dm)"
  define dm1 where "dm1 = after_update dm m"
  define good where "good = filter (returns dm) ms"
  have le: "length ts \<le> cap" using Cons.prems by (simp add: ts_def cap_def)
  have same: "maxHistory (binConfig dm1) = cap" "filter (returns dm1) ms = good"
    using returns_cong[of dm1 dm]
    by (simp_all add: dm1_def after_update_binConfig cap_def good_def cong: filter_cong)
  show ?case
  proof (cases "returns dm m")
    case False
    then have s1: "timeSeries (data dm1) = ts"
      by (simp add: dm1_def after_update_series ts_def)
    have "timeSeries (data (ingest_all ms dm1)) =
            drop (length ts + length good - cap) (ts @ map ingest_sample good)"
      using Cons.IH[of dm1] le by (simp add: s1 same)
    then show ?thesis
      using False by (simp add: dm1_def ts_def cap_def good_def)
  next
    case True
    define j where "j = Suc (length ts) - cap"
    define rest where "rest = map ingest_sample good"
    have s1: "timeSeries (data dm1) = drop j (ts @ [ingest_sample m])"
      using True push_shift_window[OF le, of "ingest_sample m"]
      by (simp only: dm1_def after_update_series j_def ts_def cap_def if_True)
    have j_le: "j \<le> length (ts @ [ingest_sample m])" by (simp add: j_def)
    have l1: "length (drop j (ts @ [ingest_sample m])) = Suc (length ts) - j"
      by simp
    have "Suc (length ts) - j \<le> cap"
      using le by (simp add: j_def)
    then have le1: "length (timeSeries (data dm1)) \<le> maxHistory (binConfig dm1)"
      by (simp only: s1 l1 same)
    have arith: "Suc (length ts) - j + length good - cap + j = length ts + Suc (length good) - cap"
      using le by (simp add: j_def)
    have "timeSeries (data (ingest_all ms dm1)) =
            drop (Suc (length ts) - j + length good - cap) (drop j (ts @ [ingest_sample m]) @ rest)"
      using Cons.IH[OF le1] by (simp only: s1 l1 same rest_def)
    also have "\<dots> = drop (Suc (length ts) - j + length good - cap + j)
                       ((ts @ [ingest_sample m]) @ rest)"
      by (rule drop_window_append[OF j_le])
    also have "\<dots> = drop (length ts + Suc (length good) - cap)
                       (ts @ ingest_sample m # map ingest_sample good)"
      by (simp only: arith) (simp add: rest_def)
    finally show ?thesis
      using True by (simp add: dm1_def ts_def cap_def good_def)
  qed
qed

lemma fresh_ingest_raises:
  "DataManager_update dm (fst (new_SupernovaModel default_config g)) = Inl TypeError"
proof -
  let ?m = "fst (new_SupernovaModel default_config g)"
  have R: "getShockRadius ?m = Fin 0"
    using getShockRadius_nonneg_time[OF default_model_fields(1,2,3), of g] by simp
  obtain ps where ps: "particles ?m = fst (newParticle (hd default_elements) 0 g) # ps"
    using default_particles_first by blast
  have "radial_forEach bins (Fin 0) (particles ?m) hist = Inl TypeError" for bins hist
    by (simp add: ps radial_count_origin_time0[OF newParticle_origin])
  then show ?thesis
    by (simp add: DataManager_update_def updateRadialDistribution_def Let_def getParticles_def R)
qed

lemma returns_after_steps:
  assumes "config_ok cfg" "rng_ok g" "list_all positive dts" "dts \<noteq> []"
    and "0 < radial (binConfig dm)"
  shows "returns dm (fst (simulate cfg g dts))"
proof -
  let ?m = "fst (simulate cfg g dts)"
  let ?dm1 = "dm\<lparr>data := (data dm)\<lparr>d_particles := getParticles ?m\<rparr>\<rparr>"
  from ingest_ready_after_steps[OF assms(1-4)]
  obtain R where R: "0 < R" "getShockRadius ?m = Fin R"
    and fin: "list_all (\<lambda>p. isFin (p_x p) \<and> isFin (p_y p) \<and> isFin (p_z p)) (getParticles ?m)"
    by blast
  have "\<exists>dm'. updateRadialDistribution ?dm1 ?m = Inr dm'"
    using updateRadialDistribution_ok[OF R(2,1), of ?dm1] assms(5) fin by auto
  then show ?thesis
    by (auto simp: returns_def DataManager_update_def Let_def)
qed

lemma run_updates_time:
  "time (fst (run_updates dts m g)) = foldl jadd (time m) dts"
  by (induction dts arbitrary: m g) (simp_all add: split_def Let_def update_fields)

lemma simulate_time: "time (fst (simulate cfg g dts)) = foldl jadd (Fin 0) dts"
  by (simp add: simulate_def split_def Let_def run_updates_time new_SupernovaModel_fields)

lemma foldl_jadd_replicate: "foldl jadd (Fin t) (replicate k (Fin h)) = Fin (t + real k * h)"
  by (induction k arbitrary: t) (simp_all add: algebra_simps)

lemma ingest_sample_time: "ts_time (ingest_sample m) = time m"
  by (simp add: ingest_sample_def sample_of_def getState_def Let_def)

text \<open>
  C7, as stated, has each ingest append exactly one sample. The ingest of a freshly
  constructed model raises \<open>TypeError\<close> in \<open>updateRadialDistribution\<close>, before
  \<open>updateTimeSeries\<close> is reached: the series of a new manager is empty before the call and
  empty after it.
\<close>

theorem C7_counterexample:
  "DataManager_update new_DataManager (fst (new_SupernovaModel default_config half_rng)) =
     Inl TypeError
   \<and> timeSeries (data new_DataManager) = []
   \<and> timeSeries (data (after_update new_DataManager
        (fst (new_SupernovaModel default_config half_rng)))) = []"
  by (simp add: after_update_def fresh_ingest_raises) (simp add: new_DataManager_def)

text \<open>
  C7, amended: each ingest that returns appends exactly one sample and, when the series
  is then longer than the cap, removes exactly one from the front; an ingest that raises
  leaves the series as it was. So for a new manager with any configured cap and any run
  of ingests, the series is the last \<open>cap\<close> samples of the ingests that returned, in the
  order of appending, and it is never longer than the cap: every retained sample was
  appended after every evicted one.
\<close>

theorem C7_ingest_window:
  "timeSeries (data (ingest_all ms (manager_with_cap cap))) =
     drop (length (filter (returns (manager_with_cap cap)) ms) - cap)
       (map ingest_sample (filter (returns (manager_with_cap cap)) ms))
   \<and> length (timeSeries (data (ingest_all ms (manager_with_cap cap)))) \<le> cap
   \<and> timeSeries (data (after_update dm m)) =
       (if returns dm m
        then (if maxHistory (binConfig dm) < Suc (length (timeSeries (data dm)))
              then tl (timeSeries (data dm) @ [ingest_sample m])
              else timeSeries (data dm) @ [ingest_sample m])
        else timeSeries (data dm))"
proof -
  have c: "maxHistory (binConfig (manager_with_cap cap)) = cap"
    "timeSeries (data (manager_with_cap cap)) = []"
    by (simp_all add: manager_with_cap_def new_DataManager_def)
  have w: "timeSeries (data (ingest_all ms (manager_with_cap cap))) =
     drop (length (filter (returns (manager_with_cap cap)) ms) - cap)
       (map ingest_sample (filter (returns (manager_with_cap cap)) ms))"
    using ingest_all_window[of "manager_with_cap cap" ms] by (simp add: c)
  have "length (timeSeries (data (ingest_all ms (manager_with_cap cap)))) \<le> cap"
    by (simp add: w)
  with w show ?thesis
    by (simp only: after_update_series)
qed

lemma trajectory_returns:
  assumes "config_ok cfg" "rng_ok g" "list_all positive dts" "0 < radial (binConfig dm)"
  shows "filter (returns dm) (trajectory cfg g dts) = trajectory cfg g dts"
proof -
  have "returns dm m" if "m \<in> set (trajectory cfg g dts)" for m
  proof -
    from that obtain k where k: "1 \<le> k" "k \<le> length dts" "m = fst (simulate cfg g (take k dts))"
      by (auto simp: trajectory_def)
    have "take k dts \<noteq> []" using k(1,2) by auto
    moreover have "list_all positive (take k dts)"
      using assms(3) by (auto simp: list_all_iff dest: in_set_takeD)
    ultimately show ?thesis
      unfolding k(3) using returns_after_steps[OF assms(1,2) _ _ assms(4)] by blast
  qed
  then show ?thesis by (simp add: filter_id_conv)
qed

lemma trajectory_times:
  "map time (trajectory cfg g (replicate n (Fin h))) = map (\<lambda>k. Fin (real k * h)) [1..<Suc n]"
  by (simp add: trajectory_def simulate_time foldl_jadd_replicate min_def)

text \<open>
  C7, amended, for a manager with cap 100: the ingest of the fresh model, which raises,
  then the ingests of the 101 states of a run with steps of 100 years. The 101 ingests
  return; the sample of the first (time 100) has been evicted, and the series holds the
  100 samples of the times 200 to 10100 in that order.
\<close>

theorem C7_ingest_window_witness:
  "filter (returns (manager_with_cap 100))
      (fst (new_SupernovaModel default_config half_rng)
       # trajectory default_config half_rng (replicate 101 (Fin 100))) =
     trajectory default_config half_rng (replicate 101 (Fin 100))
   \<and> timeSeries (data (ingest_all
        (fst (new_SupernovaModel default_config half_rng)
         # trajectory default_config half_rng (replicate 101 (Fin 100)))
        (manager_with_cap 100))) =
       drop 1 (map ingest_sample (trajectory default_config half_rng (replicate 101 (Fin 100))))
   \<and> map ts_time (timeSeries (data (ingest_all
        (fst (new_SupernovaModel default_config half_rng)
         # trajectory default_config half_rng (replicate 101 (Fin 100)))
        (manager_with_cap 100)))) =
       map (\<lambda>k. Fin (real k * 100)) [2..<102]
   \<and> length (timeSeries (data (ingest_all
        (fst (new_SupernovaModel default_config half_rng)
         # trajectory default_config half_rng (replicate 101 (Fin 100)))
        (manager_with_cap 100)))) = 100"
proof -
  let ?m0 = "fst (new_SupernovaModel default_config half_rng)"
  let ?tr = "trajectory default_config half_rng (replicate 101 (Fin 100))"
  let ?dm = "manager_with_cap 100"
  have b: "0 < radial (binConfig ?dm)"
    by (simp add: manager_with_cap_def new_DataManager_def)
  have "\<not> returns ?dm ?m0"
    by (simp add: returns_def fresh_ingest_raises)
  moreover have "filter (returns ?dm) ?tr = ?tr"
    by (rule trajectory_returns[OF default_config_ok half_rng_ok _ b]) (simp add: list_all_iff)
  ultimately have good: "filter (returns ?dm) (?m0 # ?tr) = ?tr" by simp
  have len: "length ?tr = 101" by (simp add: trajectory_def)
  from C7_ingest_window [of "?m0 # ?tr" 100]
  have w: "timeSeries (data (ingest_all (?m0 # ?tr) ?dm)) = drop 1 (map ingest_sample ?tr)"
    by (simp only: good len) simp
  have "map ts_time (drop 1 (map ingest_sample ?tr)) = drop 1 (map time ?tr)"
    by (simp add: drop_map ingest_sample_time)
  also have "\<dots> = map (\<lambda>k. Fin (real k * 100)) (drop 1 [1..<Suc 101])"
    by (simp only: trajectory_times drop_map)
  also have "drop 1 [1..<Suc 101] = [2..<102]"
    by (simp only: drop_upt one_add_one Suc_numeral semiring_norm)
  finally have t: "map ts_time (timeSeries (data (ingest_all (?m0 # ?tr) ?dm))) =
      map (\<lambda>k. Fin (real k * 100)) [2..<102]"
    by (simp only: w)
  have "length (timeSeries (data (ingest_all (?m0 # ?tr) ?dm))) = 100"
    by (simp only: w) (simp add: len)
  with good w t show ?thesis by blast
qed


section \<open>The ranges of xi and phi\<close>

lemma newParticle_range:
  assumes "rng_ok g"
  shows "between 0 1 (p_xi (fst (newParticle elem pid g)))
       \<and> between 0 pi (p_phi (fst (newParticle elem pid g)))"
proof -
  define s where "s = gauss g (used_gauss g)"
  define u where "u = uniform g (used_uniform g)"
  have s: "\<bar>s\<bar> \<le> 100" using assms by (simp add: s_def rng_ok_gauss)
  have u: "0 \<le> u" "u < 1" using rng_ok_uniform[OF assms] by (simp_all add: u_def)
  have xi: "p_xi (fst (newParticle elem pid g)) = Fin (\<bar>0.1 * s\<bar> * 0.1)"
    by (simp add: newParticle_def Let_def split_def Math_random_def d3_randomNormal_def s_def)
  have "\<bar>0.1 * s\<bar> * 0.1 \<le> 1" using s by (simp add: abs_mult)
  then have 1: "between 0 1 (p_xi (fst (newParticle elem pid g)))"
    by (simp add: xi)
  have phi: "p_phi (fst (newParticle elem pid g)) = Fin (arccos (u * 2 - 1))"
    using u by (simp add: newParticle_def Let_def split_def Math_random_def d3_randomNormal_def u_def)
  have "0 \<le> arccos (u * 2 - 1)" "arccos (u * 2 - 1) \<le> pi"
    using u by (simp_all add: arccos_lbound arccos_ubound)
  then have "between 0 pi (p_phi (fst (newParticle elem pid g)))"
    by (simp add: phi)
  with 1 show ?thesis by simp
qed

lemma particle_loop_range:
  "rng_ok g \<Longrightarrow>
     list_all (\<lambda>p. between 0 1 (p_xi p) \<and> between 0 pi (p_phi p)) (fst (particle_loop elem n pid g))
     \<and> rng_ok (snd (snd (particle_loop elem n pid g)))"
proof (induction n arbitrary: pid g)
  case 0
  then show ?case by simp
next
  case (Suc n)
  have 2: "rng_ok (snd (newParticle elem pid g))"
    using Suc.prems by (simp add: rng_ok_same[OF newParticle_rng])
  from Suc.IH[OF 2] newParticle_range[OF Suc.prems] show ?case
    by (simp add: split_def Let_def)
qed

lemma elements_forEach_range:
  "rng_ok g \<Longrightarrow>
     list_all (\<lambda>p. between 0 1 (p_xi p) \<and> between 0 pi (p_phi p)) (fst (elements_forEach es pid g))
     \<and> rng_ok (snd (snd (elements_forEach es pid g)))"
proof (induction es arbitrary: pid g)
  case Nil
  then show ?case by simp
next
  case (Cons elem es)
  let ?loop = "particle_loop elem (nat \<lfloor>2000 * el_massFrac elem\<rfloor>) pid g"
  from particle_loop_range[OF Cons.prems]
  have 1: "list_all (\<lambda>p. between 0 1 (p_xi p) \<and> between 0 pi (p_phi p)) (fst ?loop)"
    "rng_ok (snd (snd ?loop))" by blast+
  from Cons.IH[OF 1(2)] 1(1) show ?case
    by (simp add: split_def Let_def)
qed

lemma new_SupernovaModel_range:
  assumes "rng_ok g"
  shows "list_all (\<lambda>p. between 0 1 (p_xi p) \<and> between 0 pi (p_phi p))
           (particles (fst (new_SupernovaModel cfg g)))"
    and "rng_ok (snd (new_SupernovaModel cfg g))"
  using elements_forEach_range[OF assms]
  by (simp_all add: new_SupernovaModel_def initializeParticles_def split_def Let_def)

lemma update_particle_phi_any:
  assumes g: "rng_ok g" and p: "between 0 pi (p_phi p)"
  shows "between 0 pi (p_phi (fst (update_particle m dt R Rc v T p g)))"
proof -
  from p obtain f where q: "p_phi p = Fin f" "0 \<le> f" "f \<le> pi"
    by (auto simp: between_iff)
  define d where "d = (uniform g (Suc (Suc (Suc (used_uniform g)))) - 0.5) * 0.15"
  have d: "- 1 \<le> d" "d \<le> 1"
    using rng_ok_uniform[OF g, of "Suc (Suc (Suc (used_uniform g)))"] by (simp_all add: d_def)
  have "p_phi (fst (update_particle m dt R Rc v T p g))
          = (let phi1 = Fin (f + d);
                phi2 = (if jlt phi1 (Fin 0) then jneg phi1 else phi1)
            in if jgt phi2 Math_PI then jsub (jmul (Fin 2) Math_PI) phi2 else phi2)"
    by (simp add: update_particle_def Let_def split_def Math_random_def q d_def)
  then show ?thesis
    using reflect_phi[OF q(2,3) d] by simp
qed

lemma update_phi:
  assumes "rng_ok g" "list_all (\<lambda>p. between 0 pi (p_phi p)) (particles m)"
  shows "list_all (\<lambda>p. between 0 pi (p_phi p)) (particles (fst (update dt m g)))
       \<and> rng_ok (snd (update dt m g))"
proof -
  define f where "f = update_particle (m\<lparr>time := jadd (time m) dt\<rparr>) dt
                 (getShockRadius (m\<lparr>time := jadd (time m) dt\<rparr>))
                 (jmul (getShockRadius (m\<lparr>time := jadd (time m) dt\<rparr>))
                    (Fin 3086000000000000000))
                 (getShockVelocity (m\<lparr>time := jadd (time m) dt\<rparr>))
                 (getShockTemperature (m\<lparr>time := jadd (time m) dt\<rparr>))"
  have u: "update dt m g = (m\<lparr>time := jadd (time m) dt, particles := fst (forEach_rng f (particles m) g)\<rparr>,
                            snd (forEach_rng f (particles m) g))"
    by (simp add: update_def Let_def split_def f_def)
  have step: "\<And>p g. between 0 pi (p_phi p) \<Longrightarrow> rng_ok g \<Longrightarrow>
                between 0 pi (p_phi (fst (f p g))) \<and> rng_ok (snd (f p g))"
    unfolding f_def
    by (simp add: update_particle_phi_any rng_ok_same[OF update_particle_rng])
  from forEach_rng_ok[of "\<lambda>p. between 0 pi (p_phi p)" f, OF step assms(2,1)]
  show ?thesis by (simp add: u)
qed

lemma run_updates_phi:
  "rng_ok g \<Longrightarrow> list_all (\<lambda>p. between 0 pi (p_phi p)) (particles m) \<Longrightarrow>
     list_all (\<lambda>p. between 0 pi (p_phi p)) (particles (fst (run_updates dts m g)))"
proof (induction dts arbitrary: m g)
  case Nil
  then show ?case by simp
next
  case (Cons dt dts)
  from update_phi[OF Cons.prems, of dt]
  have 1: "list_all (\<lambda>p. between 0 pi (p_phi p)) (particles (fst (update dt m g)))"
    "rng_ok (snd (update dt m g))" by blast+
  from Cons.IH[OF 1(2,1)] show ?case
    by (simp add: split_def Let_def)
qed

lemma simulate_phi:
  assumes "rng_ok g"
  shows "list_all (\<lambda>p. between 0 pi (p_phi p)) (particles (fst (simulate cfg g dts)))"
proof -
  have "list_all (\<lambda>p. between 0 pi (p_phi p)) (particles (fst (new_SupernovaModel cfg g)))"
    using new_SupernovaModel_range(1)[OF assms, of cfg]
    by (rule list.pred_mono_strong) simp
  from run_updates_phi[OF new_SupernovaModel_range(2)[OF assms] this]
  show ?thesis by (simp add: simulate_def split_def Let_def)
qed

lemma simulate_initial_xi:
  assumes "rng_ok g"
  shows "list_all (\<lambda>p. between 0 1 (p_xi p)) (particles (fst (simulate cfg g [])))"
proof -
  have "list_all (\<lambda>p. between 0 1 (p_xi p)) (particles (fst (new_SupernovaModel cfg g)))"
    using new_SupernovaModel_range(1)[OF assms, of cfg]
    by (rule list.pred_mono_strong) simp
  then show ?thesis by (simp add: simulate_def split_def Let_def)
qed

lemma simulate_xi:
  assumes "config_ok cfg" "rng_ok g" "list_all positive dts"
  shows "list_all (\<lambda>p. between 0 1 (p_xi p)) (particles (fst (simulate cfg g dts)))"
proof -
  have "list_all particle_ok (particles (fst (simulate cfg g dts)))"
    using simulate_ok(1)[OF assms] by (simp add: model_ok_def)
  then show ?thesis
    by (rule list.pred_mono_strong) (simp add: particle_ok_def)
qed

subsection \<open>A step of zero years on a fresh model\<close>

lemma jadd_NaN_right [simp]: "jadd v NaN = NaN"
  by (cases v) simp_all

lemma jmul_NaN_right [simp]: "jmul v NaN = NaN"
  by (cases v) simp_all

lemma update_particle_NaN_velocity:
  "p_xi (fst (update_particle m dt R Rc NaN T p g)) = NaN"
  by (simp add: update_particle_def Let_def split_def)

lemma update_first:
  assumes "particles m = p # ps"
  shows "hd (particles (fst (update dt m g))) =
           fst (update_particle (m\<lparr>time := jadd (time m) dt\<rparr>) dt
                 (getShockRadius (m\<lparr>time := jadd (time m) dt\<rparr>))
                 (jmul (getShockRadius (m\<lparr>time := jadd (time m) dt\<rparr>))
                    (Fin 3086000000000000000))
                 (getShockVelocity (m\<lparr>time := jadd (time m) dt\<rparr>))
                 (getShockTemperature (m\<lparr>time := jadd (time m) dt\<rparr>)) p g)"
  by (simp add: update_def Let_def split_def assms)

lemma default_elements_first:
  assumes "cfg_elements cfg = None"
  shows "\<exists>ps. particles (fst (new_SupernovaModel cfg g)) =
          fst (newParticle (hd default_elements) 0 g) # ps"
proof -
  have "0 < nat \<lfloor>2000 * el_massFrac (hd default_elements)\<rfloor>"
    by (simp add: default_elements_def)
  from elements_forEach_first[OF this, of "tl default_elements" 0 g]
  show ?thesis
    by (simp add: new_SupernovaModel_particles assms default_elements_def)
qed

lemma getShockVelocity_negative_energy:
  assumes "energy m = Fin e" "density m = Fin d" "e < 0" "0 < d"
  shows "getShockVelocity m = NaN"
proof -
  have "e / d < 0" using assms(3,4) by (simp add: divide_neg_pos)
  then have "Math_pow (jdiv (energy m) (density m)) 0.2 = NaN"
    using assms by simp
  then have "getShockRadius m = NaN"
    by (simp add: getShockRadius_def)
  then show ?thesis
    by (simp add: getShockVelocity_def)
qed

text \<open>
  C3, as stated, holds after every \<open>update(dt)\<close> call. After \<open>update(0)\<close> on a freshly
  constructed default model the time is still \<open>0\<close>, the shock velocity is \<open>NaN\<close>, and the
  clamp \<open>Math.min(1.0, Math.max(0, NaN))\<close> returns \<open>NaN\<close>: the first particle's \<open>xi\<close> is \<open>NaN\<close>,
  which is not in \<open>[0,1]\<close>. The same happens after \<open>update(100)\<close> on a model constructed with
  \<open>energy = -1\<close>, which the constructor accepts.
\<close>

theorem C3_counterexample:
  "p_xi (hd (particles (fst (simulate default_config half_rng [Fin 0])))) = NaN
   \<and> \<not> between 0 1 (p_xi (hd (particles (fst (simulate default_config half_rng [Fin 0])))))
   \<and> p_xi (hd (particles (fst (simulate
        \<lparr>cfg_energy = Some (Fin (- 1)), cfg_density = None, cfg_elements = None\<rparr>
        half_rng [Fin 100])))) = NaN"
proof -
  let ?m0 = "fst (new_SupernovaModel default_config half_rng)"
  let ?g0 = "snd (new_SupernovaModel default_config half_rng)"
  obtain ps where ps: "particles ?m0 = fst (newParticle (hd default_elements) 0 half_rng) # ps"
    using default_particles_first by blast
  have v: "getShockVelocity (?m0\<lparr>time := jadd (time ?m0) (Fin 0)\<rparr>) = NaN"
    by (rule getShockVelocity_time0) (simp add: default_model_fields)
  have "p_xi (hd (particles (fst (update (Fin 0) ?m0 ?g0)))) = NaN"
    by (simp only: update_first[OF ps] v update_particle_NaN_velocity)
  then have 1: "p_xi (hd (particles (fst (simulate default_config half_rng [Fin 0])))) = NaN"
    by (simp only: simulate_single)
  let ?c = "\<lparr>cfg_energy = Some (Fin (- 1)), cfg_density = None, cfg_elements = None\<rparr>"
  let ?n0 = "fst (new_SupernovaModel ?c half_rng)"
  let ?h0 = "snd (new_SupernovaModel ?c half_rng)"
  obtain qs where qs: "particles ?n0 = fst (newParticle (hd default_elements) 0 half_rng) # qs"
    using default_elements_first[of ?c half_rng] by auto
  have w: "getShockVelocity (?n0\<lparr>time := jadd (time ?n0) (Fin 100)\<rparr>) = NaN"
    by (rule getShockVelocity_negative_energy[of _ "- 1" "1 / 10 ^ 24"])
       (simp_all add: new_SupernovaModel_fields)
  have "p_xi (hd (particles (fst (update (Fin 100) ?n0 ?h0)))) = NaN"
    by (simp only: update_first[OF qs] w update_particle_NaN_velocity)
  then have 2: "p_xi (hd (particles (fst (simulate ?c half_rng [Fin 100])))) = NaN"
    by (simp only: simulate_single)
  from 1 2 show ?thesis by (simp add: between_def)
qed

text \<open>
  C3, amended. With \<open>Math.random()\<close> in \<open>[0, 1)\<close> and bounded normal deviates:
  \<^item> \<open>phi\<close> lies in \<open>[0,\<pi>]\<close> for every particle after initialization and after every
    \<open>update(dt)\<close>, for every configuration and every \<open>dt\<close>;
  \<^item> \<open>xi\<close> lies in \<open>[0,1]\<close> after initialization, for every configuration;
  \<^item> \<open>xi\<close> lies in \<open>[0,1]\<close> after every \<open>update(dt)\<close> of a run in which every \<open>dt\<close> is positive
    and the configuration has positive energy and density and species with positive mass
    number and non-negative diffusion scale.
\<close>

theorem C3_xi_phi_in_range:
  assumes "rng_ok g"
  shows "list_all (\<lambda>p. between 0 pi (p_phi p)) (particles (fst (simulate cfg g dts)))
       \<and> list_all (\<lambda>p. between 0 1 (p_xi p)) (particles (fst (simulate cfg g [])))
       \<and> (config_ok cfg \<and> list_all positive dts \<longrightarrow>
            list_all (\<lambda>p. between 0 1 (p_xi p) \<and> between 0 pi (p_phi p))
              (particles (fst (simulate cfg g dts))))"
proof -
  have "list_all (\<lambda>p. between 0 1 (p_xi p) \<and> between 0 pi (p_phi p))
          (particles (fst (simulate cfg g dts)))"
    if "config_ok cfg" "list_all positive dts"
    using simulate_xi[OF that(1) assms that(2)] simulate_phi[OF assms, of cfg dts]
    by (simp add: list_all_iff)
  then show ?thesis
    using simulate_phi[OF assms, of cfg dts] simulate_initial_xi[OF assms, of cfg] by blast
qed

text \<open>
  C3, amended, for the default configuration: \<open>phi\<close> after \<open>update(0)\<close>, \<open>xi\<close> after
  initialization, and both after \<open>update(100)\<close> and \<open>update(50)\<close>.
\<close>

theorem C3_xi_phi_in_range_witness:
  "rng_ok half_rng \<and> config_ok default_config \<and> list_all positive [Fin 100, Fin 50]
   \<and> list_all (\<lambda>p. between 0 pi (p_phi p))
        (particles (fst (simulate default_config half_rng [Fin 0])))
   \<and> list_all (\<lambda>p. between 0 1 (p_xi p)) (particles (fst (simulate default_config half_rng [])))
   \<and> list_all (\<lambda>p. between 0 1 (p_xi p) \<and> between 0 pi (p_phi p))
        (particles (fst (simulate default_config half_rng [Fin 100, Fin 50])))"
proof -
  have p: "list_all positive [Fin 100, Fin 50]" by simp
  from C3_xi_phi_in_range [OF half_rng_ok, of default_config "[Fin 100, Fin 50]"]
    C3_xi_phi_in_range [OF half_rng_ok, of default_config "[Fin 0]"]
    p default_config_ok half_rng_ok
  show ?thesis by blast
qed

subsection \<open>Runs and their aggregates under different random values\<close>

lemma simulate_independent:
  "getState (fst (simulate cfg g1 dts)) = getState (fst (simulate cfg g2 dts))
   \<and> map identity_of (particles (fst (simulate cfg g1 dts))) =
       map identity_of (particles (fst (simulate cfg g2 dts)))"
proof -
  have "map identity_of (particles (fst (new_SupernovaModel cfg g1))) =
          map identity_of (particles (fst (new_SupernovaModel cfg g2)))"
    using elements_forEach_identity[of _ 0 g1 g2] by (simp only: new_SupernovaModel_particles)
  then have "getState (fst (run_updates dts (fst (new_SupernovaModel cfg g1))
                              (snd (new_SupernovaModel cfg g1)))) =
             getState (fst (run_updates dts (fst (new_SupernovaModel cfg g2))
                              (snd (new_SupernovaModel cfg g2))))
       \<and> map identity_of (particles (fst (run_updates dts (fst (new_SupernovaModel cfg g1))
                              (snd (new_SupernovaModel cfg g1))))) =
           map identity_of (particles (fst (run_updates dts (fst (new_SupernovaModel cfg g2))
                              (snd (new_SupernovaModel cfg g2)))))"
    by (intro run_updates_independent) (simp_all add: new_SupernovaModel_fields)
  then show ?thesis
    by (simp add: simulate_def split_def Let_def)
qed

lemma ingest_sample_cong:
  assumes "getState m1 = getState m2" "length (particles m1) = length (particles m2)"
  shows "ingest_sample m1 = ingest_sample m2"
  using assms by (simp add: ingest_sample_def sample_of_def Let_def getParticles_def)

lemma simulate_sample_independent:
  "ingest_sample (fst (simulate cfg g1 dts)) = ingest_sample (fst (simulate cfg g2 dts))"
proof (rule ingest_sample_cong)
  show "getState (fst (simulate cfg g1 dts)) = getState (fst (simulate cfg g2 dts))"
    using simulate_independent by blast
  have "map identity_of (particles (fst (simulate cfg g1 dts))) =
       map identity_of (particles (fst (simulate cfg g2 dts)))"
    using simulate_independent by blast
  then show "length (particles (fst (simulate cfg g1 dts))) =
             length (particles (fst (simulate cfg g2 dts)))"
    by (rule map_eq_imp_length_eq)
qed

lemma trajectory_samples_independent:
  "map ingest_sample (trajectory cfg g1 dts) = map ingest_sample (trajectory cfg g2 dts)"
  by (simp add: trajectory_def simulate_sample_independent[of cfg g1 _ g2])

lemma trajectory_same:
  assumes "same_draws g1 g2"
  shows "trajectory cfg g1 dts = trajectory cfg g2 dts"
  by (simp add: trajectory_def simulate_same[OF assms])

text \<open>
  C9, amended: the model takes no seed; it draws from the process-wide random sources.
  If in two runs with the same configuration and the same steps the sources return the
  same values, call after call, then the runs produce the same model states step by step
  and the same aggregates from their ingests. Whatever the sources return, the two runs
  share the shock state (time, radius, velocity, temperature), particle by particle the
  id, species, mass number, colour and diffusion coefficient, and the time-series sample
  of every step.
\<close>

theorem C9_determined_by_draws:
  "(same_draws g1 g2 \<longrightarrow>
      trajectory cfg g1 dts = trajectory cfg g2 dts
      \<and> ingest_all (trajectory cfg g1 dts) dm = ingest_all (trajectory cfg g2 dts) dm)
   \<and> getState (fst (simulate cfg g1 dts)) = getState (fst (simulate cfg g2 dts))
   \<and> map identity_of (particles (fst (simulate cfg g1 dts))) =
       map identity_of (particles (fst (simulate cfg g2 dts)))
   \<and> map ingest_sample (trajectory cfg g1 dts) = map ingest_sample (trajectory cfg g2 dts)"
proof -
  have "trajectory cfg g1 dts = trajectory cfg g2 dts
      \<and> ingest_all (trajectory cfg g1 dts) dm = ingest_all (trajectory cfg g2 dts) dm"
    if "same_draws g1 g2"
    using trajectory_same[OF that, of cfg dts] by simp
  then show ?thesis
    using simulate_independent[of cfg g1 dts g2] trajectory_samples_independent[of cfg g1 dts g2]
    by blast
qed

text \<open>
  C9, amended, for the default configuration and steps of 100 and 50 years: two states
  of the sources that differ in the number of values consumed but return the same
  values, and the state whose normal deviate is \<open>1\<close> instead of \<open>0\<close>.
\<close>

theorem C9_determined_by_draws_witness:
  "same_draws half_rng (half_rng\<lparr>used_uniform := 7, used_gauss := 3\<rparr>)
   \<and> trajectory default_config half_rng [Fin 100, Fin 50] =
       trajectory default_config (half_rng\<lparr>used_uniform := 7, used_gauss := 3\<rparr>) [Fin 100, Fin 50]
   \<and> ingest_all (trajectory default_config half_rng [Fin 100, Fin 50]) new_DataManager =
       ingest_all (trajectory default_config (half_rng\<lparr>used_uniform := 7, used_gauss := 3\<rparr>)
                    [Fin 100, Fin 50]) new_DataManager
   \<and> getState (fst (simulate default_config half_rng [Fin 100, Fin 50])) =
       getState (fst (simulate default_config unit_rng [Fin 100, Fin 50]))
   \<and> map identity_of (particles (fst (simulate default_config half_rng [Fin 100, Fin 50]))) =
       map identity_of (particles (fst (simulate default_config unit_rng [Fin 100, Fin 50])))
   \<and> map ingest_sample (trajectory default_config half_rng [Fin 100, Fin 50]) =
       map ingest_sample (trajectory default_config unit_rng [Fin 100, Fin 50])"
proof -
  have d: "same_draws half_rng (half_rng\<lparr>used_uniform := 7, used_gauss := 3\<rparr>)"
    by (simp add: same_draws_def half_rng_def)
  from C9_determined_by_draws [of half_rng "half_rng\<lparr>used_uniform := 7, used_gauss := 3\<rparr>"
      default_config "[Fin 100, Fin 50]" new_DataManager] d
  have 1: "trajectory default_config half_rng [Fin 100, Fin 50] =
       trajectory default_config (half_rng\<lparr>used_uniform := 7, used_gauss := 3\<rparr>) [Fin 100, Fin 50]
     \<and> ingest_all (trajectory default_config half_rng [Fin 100, Fin 50]) new_DataManager =
       ingest_all (trajectory default_config (half_rng\<lparr>used_uniform := 7, used_gauss := 3\<rparr>)
                    [Fin 100, Fin 50]) new_DataManager"
    by blast
  from C9_determined_by_draws [of half_rng unit_rng default_config "[Fin 100, Fin 50]" new_DataManager]
  have 2: "getState (fst (simulate default_config half_rng [Fin 100, Fin 50])) =
       getState (fst (simulate default_config unit_rng [Fin 100, Fin 50]))
   \<and> map identity_of (particles (fst (simulate default_config half_rng [Fin 100, Fin 50]))) =
       map identity_of (particles (fst (simulate default_config unit_rng [Fin 100, Fin 50])))
   \<and> map ingest_sample (trajectory default_config half_rng [Fin 100, Fin 50]) =
       map ingest_sample (trajectory default_config unit_rng [Fin 100, Fin 50])"
    by blast
  from d 1 2 show ?thesis by blast
qed


end
